theory Spec2Isabelle
  imports Main "HOL-Library.Word"
begin

unbundle bit_operations_syntax

section \<open>Shared enumerations (ShaderBase.h)\<close>

type_synonym u8 = "8 word"
type_synonym u32 = "32 word"

datatype IGNITE_LogType =
    IGNITE_LOG_TYPE_INFO
  | IGNITE_LOG_TYPE_WARNING
  | IGNITE_LOG_TYPE_ERROR

datatype IGNITE_ShaderType =
    IGNITE_SHADER_TYPE_VERTEX
  | IGNITE_SHADER_TYPE_PIXEL
  | IGNITE_SHADER_TYPE_GEOMETRY
  | IGNITE_SHADER_TYPE_COMPUTE
  | IGNITE_SHADER_TYPE_TESSELLATION

datatype IGNITE_ShaderPlatformType =
    IGNITE_SHADER_PLATFORM_TYPE_DXBC
  | IGNITE_SHADER_PLATFORM_TYPE_DXIL
  | IGNITE_SHADER_PLATFORM_TYPE_SPIRV

datatype IGNITE_OptimizationLevel =
    IGNITE_OPT_LEVEL_0
  | IGNITE_OPT_LEVEL_1
  | IGNITE_OPT_LEVEL_2
  | IGNITE_OPT_LEVEL_3

datatype IGNITE_ResultCode =
    IGNITE_RESULT_OK
  | IGNITE_RESULT_INVALID_ARGUMENT
  | IGNITE_RESULT_UNSUPPORTED_PLATFORM
  | IGNITE_RESULT_COMPILATION_FAILED
  | IGNITE_RESULT_INTERNAL_ERROR

datatype IGNITE_VertexElementFormat =
    IGNITE_VERTEX_ELEMENT_FORMAT_INVALID
  | IGNITE_VERTEX_ELEMENT_FORMAT_INT
  | IGNITE_VERTEX_ELEMENT_FORMAT_INT2
  | IGNITE_VERTEX_ELEMENT_FORMAT_INT3
  | IGNITE_VERTEX_ELEMENT_FORMAT_INT4
  | IGNITE_VERTEX_ELEMENT_FORMAT_UINT
  | IGNITE_VERTEX_ELEMENT_FORMAT_UINT2
  | IGNITE_VERTEX_ELEMENT_FORMAT_UINT3
  | IGNITE_VERTEX_ELEMENT_FORMAT_UINT4
  | IGNITE_VERTEX_ELEMENT_FORMAT_FLOAT
  | IGNITE_VERTEX_ELEMENT_FORMAT_FLOAT2
  | IGNITE_VERTEX_ELEMENT_FORMAT_FLOAT3
  | IGNITE_VERTEX_ELEMENT_FORMAT_FLOAT4
  | IGNITE_VERTEX_ELEMENT_FORMAT_BYTE2
  | IGNITE_VERTEX_ELEMENT_FORMAT_BYTE4
  | IGNITE_VERTEX_ELEMENT_FORMAT_UBYTE2
  | IGNITE_VERTEX_ELEMENT_FORMAT_UBYTE4
  | IGNITE_VERTEX_ELEMENT_FORMAT_BYTE2_NORM
  | IGNITE_VERTEX_ELEMENT_FORMAT_BYTE4_NORM
  | IGNITE_VERTEX_ELEMENT_FORMAT_UBYTE2_NORM
  | IGNITE_VERTEX_ELEMENT_FORMAT_UBYTE4_NORM
  | IGNITE_VERTEX_ELEMENT_FORMAT_SHORT2
  | IGNITE_VERTEX_ELEMENT_FORMAT_SHORT4
  | IGNITE_VERTEX_ELEMENT_FORMAT_USHORT2
  | IGNITE_VERTEX_ELEMENT_FORMAT_USHORT4
  | IGNITE_VERTEX_ELEMENT_FORMAT_SHORT2_NORM
  | IGNITE_VERTEX_ELEMENT_FORMAT_SHORT4_NORM
  | IGNITE_VERTEX_ELEMENT_FORMAT_USHORT2_NORM
  | IGNITE_VERTEX_ELEMENT_FORMAT_USHORT4_NORM
  | IGNITE_VERTEX_ELEMENT_FORMAT_HALF2
  | IGNITE_VERTEX_ELEMENT_FORMAT_HALF4

text \<open>
  The enumerators of \<open>IGNITE_VertexElementFormat\<close> carry no explicit values, so C numbers
  them 0, 1, 2, ... in declaration order. \<open>format_slot\<close> is that number for the
  formats the two type mappers can return, and 0 (the slot of the sentinel) is spelled out.
\<close>

fun format_slot :: "IGNITE_VertexElementFormat \<Rightarrow> nat" where
  "format_slot IGNITE_VERTEX_ELEMENT_FORMAT_INVALID = 0"
| "format_slot IGNITE_VERTEX_ELEMENT_FORMAT_INT = 1"
| "format_slot IGNITE_VERTEX_ELEMENT_FORMAT_INT2 = 2"
| "format_slot IGNITE_VERTEX_ELEMENT_FORMAT_INT3 = 3"
| "format_slot IGNITE_VERTEX_ELEMENT_FORMAT_INT4 = 4"
| "format_slot IGNITE_VERTEX_ELEMENT_FORMAT_UINT = 5"
| "format_slot IGNITE_VERTEX_ELEMENT_FORMAT_UINT2 = 6"
| "format_slot IGNITE_VERTEX_ELEMENT_FORMAT_UINT3 = 7"
| "format_slot IGNITE_VERTEX_ELEMENT_FORMAT_UINT4 = 8"
| "format_slot IGNITE_VERTEX_ELEMENT_FORMAT_FLOAT = 9"
| "format_slot IGNITE_VERTEX_ELEMENT_FORMAT_FLOAT2 = 10"
| "format_slot IGNITE_VERTEX_ELEMENT_FORMAT_FLOAT3 = 11"
| "format_slot IGNITE_VERTEX_ELEMENT_FORMAT_FLOAT4 = 12"
| "format_slot IGNITE_VERTEX_ELEMENT_FORMAT_BYTE2 = 13"
| "format_slot IGNITE_VERTEX_ELEMENT_FORMAT_BYTE4 = 14"
| "format_slot IGNITE_VERTEX_ELEMENT_FORMAT_UBYTE2 = 15"
| "format_slot IGNITE_VERTEX_ELEMENT_FORMAT_UBYTE4 = 16"
| "format_slot IGNITE_VERTEX_ELEMENT_FORMAT_BYTE2_NORM = 17"
| "format_slot IGNITE_VERTEX_ELEMENT_FORMAT_BYTE4_NORM = 18"
| "format_slot IGNITE_VERTEX_ELEMENT_FORMAT_UBYTE2_NORM = 19"
| "format_slot IGNITE_VERTEX_ELEMENT_FORMAT_UBYTE4_NORM = 20"
| "format_slot IGNITE_VERTEX_ELEMENT_FORMAT_SHORT2 = 21"
| "format_slot IGNITE_VERTEX_ELEMENT_FORMAT_SHORT4 = 22"
| "format_slot IGNITE_VERTEX_ELEMENT_FORMAT_USHORT2 = 23"
| "format_slot IGNITE_VERTEX_ELEMENT_FORMAT_USHORT4 = 24"
| "format_slot IGNITE_VERTEX_ELEMENT_FORMAT_SHORT2_NORM = 25"
| "format_slot IGNITE_VERTEX_ELEMENT_FORMAT_SHORT4_NORM = 26"
| "format_slot IGNITE_VERTEX_ELEMENT_FORMAT_USHORT2_NORM = 27"
| "format_slot IGNITE_VERTEX_ELEMENT_FORMAT_USHORT4_NORM = 28"
| "format_slot IGNITE_VERTEX_ELEMENT_FORMAT_HALF2 = 29"
| "format_slot IGNITE_VERTEX_ELEMENT_FORMAT_HALF4 = 30"

section \<open>Type mappers (ShaderCompiler.cpp, anonymous namespace)\<close>

text \<open>
  \<open>D3D_REGISTER_COMPONENT_TYPE\<close> is the component-type tag of a Direct3D signature
  parameter (d3dcommon.h). Only the three 32-bit kinds have a case in the mapper.
\<close>

datatype D3D_REGISTER_COMPONENT_TYPE =
    D3D_REGISTER_COMPONENT_UNKNOWN
  | D3D_REGISTER_COMPONENT_UINT32
  | D3D_REGISTER_COMPONENT_SINT32
  | D3D_REGISTER_COMPONENT_FLOAT32
  | D3D_REGISTER_COMPONENT_UINT16
  | D3D_REGISTER_COMPONENT_SINT16
  | D3D_REGISTER_COMPONENT_FLOAT16
  | D3D_REGISTER_COMPONENT_UINT64
  | D3D_REGISTER_COMPONENT_SINT64
  | D3D_REGISTER_COMPONENT_FLOAT64

text \<open>
  \<open>IGNITE_Map3DComponent\<close>: an outer switch on the component type, an inner switch on the
  element count; every path that leaves a switch through \<open>break\<close> or \<open>default\<close> reaches
  the final \<open>return IGNITE_VERTEX_ELEMENT_FORMAT_INVALID\<close>.
\<close>

fun IGNITE_Map3DComponent ::
  "D3D_REGISTER_COMPONENT_TYPE \<Rightarrow> u32 \<Rightarrow> IGNITE_VertexElementFormat" where
  "IGNITE_Map3DComponent D3D_REGISTER_COMPONENT_FLOAT32 elementCount =
     (if elementCount = 1 then IGNITE_VERTEX_ELEMENT_FORMAT_FLOAT
      else if elementCount = 2 then IGNITE_VERTEX_ELEMENT_FORMAT_FLOAT2
      else if elementCount = 3 then IGNITE_VERTEX_ELEMENT_FORMAT_FLOAT2
      else if elementCount = 4 then IGNITE_VERTEX_ELEMENT_FORMAT_FLOAT3
      else IGNITE_VERTEX_ELEMENT_FORMAT_INVALID)"
| "IGNITE_Map3DComponent D3D_REGISTER_COMPONENT_SINT32 elementCount =
     (if elementCount = 1 then IGNITE_VERTEX_ELEMENT_FORMAT_INT
      else if elementCount = 2 then IGNITE_VERTEX_ELEMENT_FORMAT_INT2
      else if elementCount = 3 then IGNITE_VERTEX_ELEMENT_FORMAT_INT3
      else if elementCount = 4 then IGNITE_VERTEX_ELEMENT_FORMAT_INT4
      else IGNITE_VERTEX_ELEMENT_FORMAT_INVALID)"
| "IGNITE_Map3DComponent D3D_REGISTER_COMPONENT_UINT32 elementCount =
     (if elementCount = 1 then IGNITE_VERTEX_ELEMENT_FORMAT_UINT
      else if elementCount = 2 then IGNITE_VERTEX_ELEMENT_FORMAT_UINT2
      else if elementCount = 3 then IGNITE_VERTEX_ELEMENT_FORMAT_UINT3
      else if elementCount = 4 then IGNITE_VERTEX_ELEMENT_FORMAT_UINT4
      else IGNITE_VERTEX_ELEMENT_FORMAT_INVALID)"
| "IGNITE_Map3DComponent _ elementCount = IGNITE_VERTEX_ELEMENT_FORMAT_INVALID"

text \<open>
  A SPIRV-Cross type handle answers three queries used here: base type, vector size and
  column count. \<open>spvc_basetype\<close> lists the enumerators of spirv_cross_c.h. A null handle is
  \<open>None\<close>.
\<close>

datatype spvc_basetype =
    SPVC_BASETYPE_UNKNOWN
  | SPVC_BASETYPE_VOID
  | SPVC_BASETYPE_BOOLEAN
  | SPVC_BASETYPE_INT8
  | SPVC_BASETYPE_UINT8
  | SPVC_BASETYPE_INT16
  | SPVC_BASETYPE_UINT16
  | SPVC_BASETYPE_INT32
  | SPVC_BASETYPE_UINT32
  | SPVC_BASETYPE_INT64
  | SPVC_BASETYPE_UINT64
  | SPVC_BASETYPE_ATOMIC_COUNTER
  | SPVC_BASETYPE_FP16
  | SPVC_BASETYPE_FP32
  | SPVC_BASETYPE_FP64
  | SPVC_BASETYPE_STRUCT
  | SPVC_BASETYPE_IMAGE
  | SPVC_BASETYPE_SAMPLED_IMAGE
  | SPVC_BASETYPE_SAMPLER
  | SPVC_BASETYPE_ACCELERATION_STRUCTURE

record spvc_type =
  spvc_type_get_basetype :: spvc_basetype
  spvc_type_get_vector_size :: u32
  spvc_type_get_columns :: u32

definition IGNITE_MapSpvcType :: "spvc_type option \<Rightarrow> IGNITE_VertexElementFormat" where
  "IGNITE_MapSpvcType typeHandle =
     (case typeHandle of
        None \<Rightarrow> IGNITE_VERTEX_ELEMENT_FORMAT_INVALID
      | Some h \<Rightarrow>
          (let baseType = spvc_type_get_basetype h;
               vecSize = spvc_type_get_vector_size h;
               columns = spvc_type_get_columns h
           in if columns \<noteq> 1 then IGNITE_VERTEX_ELEMENT_FORMAT_INVALID
              else if baseType = SPVC_BASETYPE_FP32 then
                (if vecSize = 1 then IGNITE_VERTEX_ELEMENT_FORMAT_FLOAT
                 else if vecSize = 2 then IGNITE_VERTEX_ELEMENT_FORMAT_FLOAT2
                 else if vecSize = 3 then IGNITE_VERTEX_ELEMENT_FORMAT_FLOAT3
                 else if vecSize = 4 then IGNITE_VERTEX_ELEMENT_FORMAT_FLOAT4
                 else IGNITE_VERTEX_ELEMENT_FORMAT_INVALID)
              else if baseType = SPVC_BASETYPE_INT32 then
                (if vecSize = 1 then IGNITE_VERTEX_ELEMENT_FORMAT_INT
                 else if vecSize = 2 then IGNITE_VERTEX_ELEMENT_FORMAT_INT2
                 else if vecSize = 3 then IGNITE_VERTEX_ELEMENT_FORMAT_INT3
                 else if vecSize = 4 then IGNITE_VERTEX_ELEMENT_FORMAT_INT4
                 else IGNITE_VERTEX_ELEMENT_FORMAT_INVALID)
              else if baseType = SPVC_BASETYPE_UINT32 then
                (if vecSize = 1 then IGNITE_VERTEX_ELEMENT_FORMAT_UINT
                 else if vecSize = 2 then IGNITE_VERTEX_ELEMENT_FORMAT_UINT2
                 else if vecSize = 3 then IGNITE_VERTEX_ELEMENT_FORMAT_UINT3
                 else if vecSize = 4 then IGNITE_VERTEX_ELEMENT_FORMAT_UINT4
                 else IGNITE_VERTEX_ELEMENT_FORMAT_INVALID)
              else IGNITE_VERTEX_ELEMENT_FORMAT_INVALID))"

text \<open>
  The three scalar kinds both mappers support, with the tag each backend uses for them.
\<close>

datatype scalar_kind = Float32 | SignedInt32 | UnsignedInt32

fun d3d_kind :: "scalar_kind \<Rightarrow> D3D_REGISTER_COMPONENT_TYPE" where
  "d3d_kind Float32 = D3D_REGISTER_COMPONENT_FLOAT32"
| "d3d_kind SignedInt32 = D3D_REGISTER_COMPONENT_SINT32"
| "d3d_kind UnsignedInt32 = D3D_REGISTER_COMPONENT_UINT32"

fun spvc_kind :: "scalar_kind \<Rightarrow> spvc_basetype" where
  "spvc_kind Float32 = SPVC_BASETYPE_FP32"
| "spvc_kind SignedInt32 = SPVC_BASETYPE_INT32"
| "spvc_kind UnsignedInt32 = SPVC_BASETYPE_UINT32"

definition vector_type :: "scalar_kind \<Rightarrow> u32 \<Rightarrow> spvc_type option" where
  "vector_type k w =
     Some \<lparr>spvc_type_get_basetype = spvc_kind k, spvc_type_get_vector_size = w,
           spvc_type_get_columns = 1\<rparr>"

section \<open>Text helpers\<close>

text \<open>
  \<open>std::to_string\<close> on an unsigned value and \<open>swprintf\<close> with \<open>%u\<close> both print the
  decimal digits without sign or padding. Narrow and wide strings are both modelled as
  \<open>string\<close>: \<open>AnsiToWide\<close> widens character by character and keeps length and order.
\<close>

definition digit_char :: "nat \<Rightarrow> char" where
  "digit_char d = char_of (48 + d)"

fun to_string :: "nat \<Rightarrow> string" where
  "to_string n = (if n < 10 then [digit_char n] else to_string (n div 10) @ [digit_char (n mod 10)])"

declare to_string.simps [simp del]

definition AnsiToWide :: "string \<Rightarrow> string" where
  "AnsiToWide s = s"

section \<open>Reflection data model (ShaderCompiler.h)\<close>

text \<open>
  Field names carry a short prefix because several structs of the source share the names
  \<open>name\<close>, \<open>id\<close>, \<open>format\<close> and \<open>size\<close>. \<open>size_t\<close> counters hold vector sizes and are
  natural numbers; \<open>uint32_t\<close> fields are 32-bit words.
\<close>

record VertexAttribute =
  attr_name :: string
  attr_format :: IGNITE_VertexElementFormat
  attr_bufferIndex :: u32
  attr_offset :: u32
  attr_elementStride :: u32

record ShaderResourceInfo =
  res_name :: string
  res_id :: u32
  res_set :: u32
  res_binding :: u32
  res_count :: u32

record ShaderStageIOInfo =
  io_name :: string
  io_id :: u32
  io_location :: u32
  io_format :: IGNITE_VertexElementFormat
  io_vecSize :: u32
  io_columns :: u32

record ShaderPushConstantInfo =
  pc_name :: string
  pc_size :: u32

record ShaderReflectionInfo =
  shaderType :: IGNITE_ShaderType
  numUniformBuffers :: nat
  numSamplers :: nat
  numStorageTextures :: nat
  numStorageBuffers :: nat
  numSeparateSamplers :: nat
  numSeparateImages :: nat
  numPushConstants :: nat
  numStageInputs :: nat
  numStageOutputs :: nat
  uniformBuffers :: "ShaderResourceInfo list"
  sampledImages :: "ShaderResourceInfo list"
  storageImages :: "ShaderResourceInfo list"
  storageBuffers :: "ShaderResourceInfo list"
  separateSamplers :: "ShaderResourceInfo list"
  separateImages :: "ShaderResourceInfo list"
  pushConstants :: "ShaderPushConstantInfo list"
  stageInputs :: "ShaderStageIOInfo list"
  stageOutputs :: "ShaderStageIOInfo list"
  vertexAttributes :: "VertexAttribute list"

text \<open>
  \<open>ShaderReflectionInfo info = {}; info.shaderType = type;\<close> the default member
  initialisers give zero counters and empty vectors.
\<close>

definition initial_info :: "IGNITE_ShaderType \<Rightarrow> ShaderReflectionInfo" where
  "initial_info type =
     \<lparr>shaderType = type,
      numUniformBuffers = 0, numSamplers = 0, numStorageTextures = 0, numStorageBuffers = 0,
      numSeparateSamplers = 0, numSeparateImages = 0, numPushConstants = 0,
      numStageInputs = 0, numStageOutputs = 0,
      uniformBuffers = [], sampledImages = [], storageImages = [], storageBuffers = [],
      separateSamplers = [], separateImages = [], pushConstants = [],
      stageInputs = [], stageOutputs = [], vertexAttributes = []\<rparr>"

fun IGNITE_GetShaderTypeString :: "IGNITE_ShaderType \<Rightarrow> string" where
  "IGNITE_GetShaderTypeString IGNITE_SHADER_TYPE_VERTEX = ''Vertex''"
| "IGNITE_GetShaderTypeString IGNITE_SHADER_TYPE_PIXEL = ''Pixel''"
| "IGNITE_GetShaderTypeString IGNITE_SHADER_TYPE_GEOMETRY = ''Geometry''"
| "IGNITE_GetShaderTypeString IGNITE_SHADER_TYPE_COMPUTE = ''Compute''"
| "IGNITE_GetShaderTypeString _ = ''Invalid''"

section \<open>Observable effects\<close>

text \<open>
  A reflect call is modelled as a function that returns the \<open>ShaderReflectionInfo\<close> together
  with the trace of what it did, in order: every message handed to \<open>DispatchLog\<close> and every
  call into a native backend that creates, parses or destroys something. Read-only queries
  on an already created compiler or reflection object are answered by the backend record
  and leave no event.
\<close>

datatype backend_call =
    spvc_context_create_call
  | spvc_context_parse_spirv_call
  | spvc_context_create_compiler_call
  | spvc_compiler_create_shader_resources_call
  | spvc_context_destroy_call
  | DxcContainerReflection_call
  | D3DReflect_call
  | ID3D12ShaderReflection_GetDesc_call

datatype event = Log IGNITE_LogType string | Call backend_call

text \<open>
  \<open>std::sort\<close> with the comparator \<open>a.location < b.location\<close>. The standard leaves the
  relative order of entries with equal keys open; the model fixes it as insertion order
  (\<open>sort_key\<close>), the same for every sort of the program: the algorithm decides by
  comparisons only, so two vectors of equal length whose keys agree position by position
  are permuted alike.
\<close>

definition std_sort :: "('a \<Rightarrow> u32) \<Rightarrow> 'a list \<Rightarrow> 'a list" where
  "std_sort key xs = sort_key key xs"

section \<open>SPIR-V reflection (ShaderReflection::SPIRVReflect)\<close>

text \<open>
  The answers of the SPIRV-Cross C library during one reflect call. Status results are
  booleans (\<open>True\<close> is \<open>SPVC_SUCCESS\<close>); a resource list that cannot be fetched and a
  null type handle or name are \<open>None\<close>. The parser receives the bytes of the blob (the
  source passes the same memory viewed as 32-bit words).
\<close>

datatype spvc_resource_type =
    SPVC_RESOURCE_TYPE_UNIFORM_BUFFER
  | SPVC_RESOURCE_TYPE_STORAGE_BUFFER
  | SPVC_RESOURCE_TYPE_STAGE_INPUT
  | SPVC_RESOURCE_TYPE_STAGE_OUTPUT
  | SPVC_RESOURCE_TYPE_STORAGE_IMAGE
  | SPVC_RESOURCE_TYPE_SAMPLED_IMAGE
  | SPVC_RESOURCE_TYPE_PUSH_CONSTANT
  | SPVC_RESOURCE_TYPE_SEPARATE_IMAGE
  | SPVC_RESOURCE_TYPE_SEPARATE_SAMPLERS

datatype SpvDecoration =
    SpvDecorationDescriptorSet
  | SpvDecorationBinding
  | SpvDecorationLocation

record spvc_reflected_resource =
  rr_id :: u32
  rr_base_type_id :: u32
  rr_type_id :: u32
  rr_name :: "string option"

record spvc_backend =
  spvc_context_create :: bool
  spvc_context_parse_spirv :: "u8 list \<Rightarrow> bool"
  spvc_context_create_compiler :: bool
  spvc_compiler_create_shader_resources :: bool
  spvc_resources_get_resource_list_for_type ::
    "spvc_resource_type \<Rightarrow> spvc_reflected_resource list option"
  spvc_compiler_get_decoration :: "u32 \<Rightarrow> SpvDecoration \<Rightarrow> u32"
  spvc_compiler_get_type_handle :: "u32 \<Rightarrow> spvc_type option"
  spvc_compiler_get_declared_struct_size :: "spvc_type \<Rightarrow> nat option"

definition c_str_or_empty :: "string option \<Rightarrow> string" where
  "c_str_or_empty p = (case p of None \<Rightarrow> [] | Some n \<Rightarrow> n)"

text \<open>The lambda \<open>collectBindings\<close>: appends one entry per listed resource.\<close>

definition collectBindings ::
  "spvc_backend \<Rightarrow> spvc_resource_type \<Rightarrow> ShaderResourceInfo list \<Rightarrow> ShaderResourceInfo list" where
  "collectBindings B resourceType outResources =
     (case spvc_resources_get_resource_list_for_type B resourceType of
        None \<Rightarrow> outResources
      | Some list \<Rightarrow>
          outResources @
          map (\<lambda>r. \<lparr>res_name = c_str_or_empty (rr_name r),
                    res_id = rr_id r,
                    res_set = spvc_compiler_get_decoration B (rr_id r) SpvDecorationDescriptorSet,
                    res_binding = spvc_compiler_get_decoration B (rr_id r) SpvDecorationBinding,
                    res_count = 1\<rparr>) list)"

text \<open>The push-constant block: the declared struct size is narrowed to 32 bits.\<close>

definition collectPushConstants ::
  "spvc_backend \<Rightarrow> ShaderPushConstantInfo list \<Rightarrow> ShaderPushConstantInfo list" where
  "collectPushConstants B outConstants =
     (case spvc_resources_get_resource_list_for_type B SPVC_RESOURCE_TYPE_PUSH_CONSTANT of
        None \<Rightarrow> outConstants
      | Some list \<Rightarrow>
          outConstants @
          map (\<lambda>r. \<lparr>pc_name = c_str_or_empty (rr_name r),
                    pc_size =
                      (case spvc_compiler_get_type_handle B (rr_base_type_id r) of
                         None \<Rightarrow> 0
                       | Some h \<Rightarrow>
                           (case spvc_compiler_get_declared_struct_size B h of
                              None \<Rightarrow> 0
                            | Some declaredSize \<Rightarrow> of_nat declaredSize))\<rparr>) list)"

text \<open>
  The lambda \<open>collectStageIO\<close>: one entry per interface variable, then the whole vector
  is sorted by location. An entry whose type handle is null keeps the defaults
  (format invalid, vector size and columns 0).
\<close>

definition stageIO_entry :: "spvc_backend \<Rightarrow> spvc_reflected_resource \<Rightarrow> ShaderStageIOInfo" where
  "stageIO_entry B r =
     (let typeHandle = spvc_compiler_get_type_handle B (rr_type_id r)
      in \<lparr>io_name = c_str_or_empty (rr_name r),
          io_id = rr_id r,
          io_location = spvc_compiler_get_decoration B (rr_id r) SpvDecorationLocation,
          io_format =
            (case typeHandle of None \<Rightarrow> IGNITE_VERTEX_ELEMENT_FORMAT_INVALID
             | Some h \<Rightarrow> IGNITE_MapSpvcType typeHandle),
          io_vecSize = (case typeHandle of None \<Rightarrow> 0 | Some h \<Rightarrow> spvc_type_get_vector_size h),
          io_columns = (case typeHandle of None \<Rightarrow> 0 | Some h \<Rightarrow> spvc_type_get_columns h)\<rparr>)"

definition collectStageIO ::
  "spvc_backend \<Rightarrow> spvc_resource_type \<Rightarrow> ShaderStageIOInfo list \<Rightarrow> ShaderStageIOInfo list" where
  "collectStageIO B stageType outIO =
     (case spvc_resources_get_resource_list_for_type B stageType of
        None \<Rightarrow> outIO
      | Some list \<Rightarrow> std_sort io_location (outIO @ map (stageIO_entry B) list))"

text \<open>
  The vertex-layout loop of the SPIR-V path. \<open>offset\<close> is the running \<open>uint32_t\<close>; the
  result is the attributes pushed (their stride still 0), the final offset and the
  warnings logged for skipped inputs, in order.
\<close>

fun SPIRV_vertex_loop ::
  "u32 \<Rightarrow> ShaderStageIOInfo list \<Rightarrow> VertexAttribute list \<times> u32 \<times> event list" where
  "SPIRV_vertex_loop offset [] = ([], offset, [])"
| "SPIRV_vertex_loop offset (input # rest) =
     (if io_format input = IGNITE_VERTEX_ELEMENT_FORMAT_INVALID then
        (case SPIRV_vertex_loop offset rest of
           (attrs, final, logs) \<Rightarrow>
             (attrs, final,
              Log IGNITE_LOG_TYPE_WARNING
                (''SPIRV reflection: unsupported vertex attribute format at location ''
                   @ to_string (unat (io_location input))) # logs))
      else
        (let componentSize = 4;
             elementCount = (if io_vecSize input > 0 then io_vecSize input else 1);
             attributeSize = componentSize * elementCount;
             attribute = \<lparr>attr_name = io_name input, attr_format = io_format input,
                          attr_bufferIndex = 0, attr_offset = offset, attr_elementStride = 0\<rparr>
         in case SPIRV_vertex_loop (offset + attributeSize) rest of
              (attrs, final, logs) \<Rightarrow> (attribute # attrs, final, logs)))"

definition set_stride :: "u32 \<Rightarrow> VertexAttribute list \<Rightarrow> VertexAttribute list" where
  "set_stride stride attrs = map (\<lambda>attribute. attribute\<lparr>attr_elementStride := stride\<rparr>) attrs"

definition SPIRV_complete_message :: "ShaderReflectionInfo \<Rightarrow> string" where
  "SPIRV_complete_message info =
     ''SPIRV reflection complete: '' @ IGNITE_GetShaderTypeString (shaderType info)
       @ '' | UBO='' @ to_string (numUniformBuffers info)
       @ '' Sampled='' @ to_string (numSamplers info)
       @ '' StorageTex='' @ to_string (numStorageTextures info)
       @ '' StorageBuf='' @ to_string (numStorageBuffers info)
       @ '' Inputs='' @ to_string (numStageInputs info)
       @ '' Outputs='' @ to_string (numStageOutputs info)"

text \<open>The part of \<open>SPIRVReflect\<close> after the four set-up calls have succeeded.\<close>

definition SPIRV_collect ::
  "spvc_backend \<Rightarrow> ShaderReflectionInfo \<Rightarrow> ShaderReflectionInfo \<times> event list" where
  "SPIRV_collect B info0 =
     (let info1 = info0
            \<lparr>uniformBuffers := collectBindings B SPVC_RESOURCE_TYPE_UNIFORM_BUFFER (uniformBuffers info0),
             sampledImages := collectBindings B SPVC_RESOURCE_TYPE_SAMPLED_IMAGE (sampledImages info0),
             storageImages := collectBindings B SPVC_RESOURCE_TYPE_STORAGE_IMAGE (storageImages info0),
             storageBuffers := collectBindings B SPVC_RESOURCE_TYPE_STORAGE_BUFFER (storageBuffers info0),
             separateSamplers := collectBindings B SPVC_RESOURCE_TYPE_SEPARATE_SAMPLERS (separateSamplers info0),
             separateImages := collectBindings B SPVC_RESOURCE_TYPE_SEPARATE_IMAGE (separateImages info0)\<rparr>;
          info2 = info1
            \<lparr>numUniformBuffers := length (uniformBuffers info1),
             numSamplers := length (sampledImages info1),
             numStorageTextures := length (storageImages info1),
             numStorageBuffers := length (storageBuffers info1),
             numSeparateSamplers := length (separateSamplers info1),
             numSeparateImages := length (separateImages info1)\<rparr>;
          info3 = info2\<lparr>pushConstants := collectPushConstants B (pushConstants info2)\<rparr>;
          info4 = info3\<lparr>numPushConstants := length (pushConstants info3)\<rparr>;
          info5 = info4
            \<lparr>stageInputs := collectStageIO B SPVC_RESOURCE_TYPE_STAGE_INPUT (stageInputs info4),
             stageOutputs := collectStageIO B SPVC_RESOURCE_TYPE_STAGE_OUTPUT (stageOutputs info4)\<rparr>;
          info6 = info5
            \<lparr>numStageInputs := length (stageInputs info5),
             numStageOutputs := length (stageOutputs info5)\<rparr>
      in if shaderType info6 = IGNITE_SHADER_TYPE_VERTEX then
           (case SPIRV_vertex_loop 0 (stageInputs info6) of
              (attrs, stride, logs) \<Rightarrow>
                (let info7 = info6\<lparr>vertexAttributes :=
                                     set_stride stride (vertexAttributes info6 @ attrs)\<rparr>
                 in (info7, logs @ [Log IGNITE_LOG_TYPE_INFO (SPIRV_complete_message info7)])))
         else (info6, [Log IGNITE_LOG_TYPE_INFO (SPIRV_complete_message info6)]))"

definition SPIRVReflect ::
  "spvc_backend \<Rightarrow> IGNITE_ShaderType \<Rightarrow> u8 list \<Rightarrow> ShaderReflectionInfo \<times> event list" where
  "SPIRVReflect B type shaderCode =
     (let info = initial_info type
      in if length shaderCode mod 4 \<noteq> 0 then
           (info,
            [Log IGNITE_LOG_TYPE_ERROR
               ''SPIRV reflection failed: shader blob size is not aligned to 4 bytes.''])
         else if \<not> spvc_context_create B then
           (info,
            [Call spvc_context_create_call,
             Log IGNITE_LOG_TYPE_ERROR
               ''SPIRV reflection failed: could not create SPIRV-Cross context.''])
         else if \<not> spvc_context_parse_spirv B shaderCode then
           (info,
            [Call spvc_context_create_call, Call spvc_context_parse_spirv_call,
             Log IGNITE_LOG_TYPE_ERROR ''SPIRV reflection failed: could not parse SPIRV blob.'',
             Call spvc_context_destroy_call])
         else if \<not> spvc_context_create_compiler B then
           (info,
            [Call spvc_context_create_call, Call spvc_context_parse_spirv_call,
             Call spvc_context_create_compiler_call,
             Log IGNITE_LOG_TYPE_ERROR
               ''SPIRV reflection failed: could not create SPIRV-Cross compiler.'',
             Call spvc_context_destroy_call])
         else if \<not> spvc_compiler_create_shader_resources B then
           (info,
            [Call spvc_context_create_call, Call spvc_context_parse_spirv_call,
             Call spvc_context_create_compiler_call,
             Call spvc_compiler_create_shader_resources_call,
             Log IGNITE_LOG_TYPE_ERROR
               ''SPIRV reflection failed: could not create shader resources.'',
             Call spvc_context_destroy_call])
         else
           (case SPIRV_collect B info of
              (info', logs) \<Rightarrow>
                (info',
                 [Call spvc_context_create_call, Call spvc_context_parse_spirv_call,
                  Call spvc_context_create_compiler_call,
                  Call spvc_compiler_create_shader_resources_call]
                  @ logs @ [Call spvc_context_destroy_call])))"

section \<open>DXIL reflection (ShaderReflection::DXILReflect)\<close>

text \<open>
  The Direct3D reflection interface as the function uses it. \<open>GetDesc\<close> is \<open>Inl hr\<close> when
  it fails with result code \<open>hr\<close>. A constant buffer that is null or whose description
  cannot be read, and a binding or signature description that cannot be read, are \<open>None\<close>;
  the loops skip them with \<open>continue\<close>.
\<close>

datatype D3D_SHADER_INPUT_TYPE =
    D3D_SIT_CBUFFER
  | D3D_SIT_TBUFFER
  | D3D_SIT_TEXTURE
  | D3D_SIT_SAMPLER
  | D3D_SIT_UAV_RWTYPED
  | D3D_SIT_STRUCTURED
  | D3D_SIT_UAV_RWSTRUCTURED
  | D3D_SIT_BYTEADDRESS
  | D3D_SIT_UAV_RWBYTEADDRESS
  | D3D_SIT_UAV_APPEND_STRUCTURED
  | D3D_SIT_UAV_CONSUME_STRUCTURED
  | D3D_SIT_UAV_RWSTRUCTURED_WITH_COUNTER
  | D3D_SIT_RTACCELERATIONSTRUCTURE
  | D3D_SIT_UAV_FEEDBACKTEXTURE

record D3D12_SHADER_DESC =
  ConstantBuffers :: u32
  BoundResources :: u32
  InputParameters :: u32
  OutputParameters :: u32

record D3D12_SHADER_BUFFER_DESC =
  cb_Name :: "string option"

record D3D12_SHADER_INPUT_BIND_DESC =
  bind_Name :: "string option"
  bind_Type :: D3D_SHADER_INPUT_TYPE
  BindPoint :: u32
  BindCount :: u32
  Space :: u32

record D3D12_SIGNATURE_PARAMETER_DESC =
  SemanticName :: "string option"
  SemanticIndex :: u32
  Register :: u32
  ComponentType :: D3D_REGISTER_COMPONENT_TYPE
  Mask :: u8

record ID3D12ShaderReflection =
  GetDesc :: "u32 + D3D12_SHADER_DESC"
  GetConstantBufferDesc :: "u32 \<Rightarrow> D3D12_SHADER_BUFFER_DESC option"
  GetResourceBindingDesc :: "u32 \<Rightarrow> D3D12_SHADER_INPUT_BIND_DESC option"
  GetInputParameterDesc :: "u32 \<Rightarrow> D3D12_SIGNATURE_PARAMETER_DESC option"
  GetOutputParameterDesc :: "u32 \<Rightarrow> D3D12_SIGNATURE_PARAMETER_DESC option"

text \<open>
  The two ways to a reflection object: the DXC container chain (create utils, create blob,
  load container, find the DXIL part, get its reflection), \<open>Some\<close> when every step succeeds
  and the object is non-null; and the legacy \<open>D3DReflect\<close>, \<open>Inl hr\<close> when it fails.
\<close>

record d3d_backend =
  DxcContainerReflection :: "u8 list \<Rightarrow> ID3D12ShaderReflection option"
  D3DReflect :: "u8 list \<Rightarrow> u32 + ID3D12ShaderReflection"

text \<open>The values \<open>0, 1, ..., n - 1\<close> of a \<open>UINT\<close> loop counter.\<close>

definition indices :: "u32 \<Rightarrow> u32 list" where
  "indices n = map of_nat [0..<unat n]"

text \<open>
  The population count of a component mask: \<open>while (mask != 0) { count += (mask & 1) ? 1 : 0;
  mask >>= 1; }\<close>, then a result of 0 is replaced by 1. The source writes this loop three
  times (stage inputs, stage outputs, the lambda \<open>countMask\<close>).
\<close>

function countMask_loop :: "u32 \<Rightarrow> u32 \<Rightarrow> u32" where
  "countMask_loop m count =
     (if m \<noteq> 0
      then countMask_loop (drop_bit 1 m) (count + (if m AND 1 \<noteq> 0 then 1 else 0))
      else count)"
  by pat_completeness auto
termination
proof (relation "measure (\<lambda>(m, count). unat m)")
  show "wf (measure (\<lambda>(m, count). unat m))" by simp
next
  fix m count :: u32
  assume nz: "m \<noteq> 0"
  then have "0 < unat m" by (simp add: unat_gt_0)
  then have "unat m div 2 < unat m" by simp
  then have "unat (drop_bit 1 m) < unat m"
    by (simp add: drop_bit_eq_div unat_div)
  then show "((drop_bit 1 m, count + (if m AND 1 \<noteq> 0 then 1 else 0)), (m, count))
      \<in> measure (\<lambda>(m, count). unat m)"
    by simp
qed

declare countMask_loop.simps [simp del]

definition countMask :: "u32 \<Rightarrow> u32" where
  "countMask m = (let count = countMask_loop m 0 in if count > 0 then count else 1)"

definition semantic_name :: "string \<Rightarrow> u32 \<Rightarrow> string" where
  "semantic_name semanticName semanticIndex =
     (if semanticIndex > 0 then semanticName @ to_string (unat semanticIndex) else semanticName)"

text \<open>One constant buffer: its entry, with the binding found by the linear scan.\<close>

definition cbuffer_matches :: "string \<Rightarrow> D3D12_SHADER_INPUT_BIND_DESC \<Rightarrow> bool" where
  "cbuffer_matches name bindDesc =
     (bind_Type bindDesc = D3D_SIT_CBUFFER \<and>
      (case bind_Name bindDesc of None \<Rightarrow> False | Some n \<Rightarrow> name = n))"

definition cbuffer_entry ::
  "ID3D12ShaderReflection \<Rightarrow> D3D12_SHADER_DESC \<Rightarrow> u32 \<Rightarrow> ShaderResourceInfo option" where
  "cbuffer_entry R shaderDesc i =
     (case GetConstantBufferDesc R i of
        None \<Rightarrow> None
      | Some cbufferDesc \<Rightarrow>
          (let resource = \<lparr>res_name = c_str_or_empty (cb_Name cbufferDesc), res_id = i,
                           res_set = 0, res_binding = 0, res_count = 1\<rparr>
           in case List.find (cbuffer_matches (res_name resource))
                     (List.map_filter (GetResourceBindingDesc R) (indices (BoundResources shaderDesc))) of
                None \<Rightarrow> Some resource
              | Some bindDesc \<Rightarrow>
                  Some (resource\<lparr>res_binding := BindPoint bindDesc, res_set := Space bindDesc,
                                 res_count := BindCount bindDesc\<rparr>)))"

text \<open>The switch on the resource type of one bound resource.\<close>

fun push_bound_resource ::
  "D3D_SHADER_INPUT_TYPE \<Rightarrow> ShaderResourceInfo \<Rightarrow> ShaderReflectionInfo \<Rightarrow> ShaderReflectionInfo" where
  "push_bound_resource D3D_SIT_TEXTURE resource info =
     info\<lparr>sampledImages := sampledImages info @ [resource]\<rparr>"
| "push_bound_resource D3D_SIT_SAMPLER resource info =
     info\<lparr>separateSamplers := separateSamplers info @ [resource]\<rparr>"
| "push_bound_resource D3D_SIT_UAV_RWTYPED resource info =
     info\<lparr>storageBuffers := storageBuffers info @ [resource]\<rparr>"
| "push_bound_resource D3D_SIT_UAV_RWSTRUCTURED resource info =
     info\<lparr>storageBuffers := storageBuffers info @ [resource]\<rparr>"
| "push_bound_resource D3D_SIT_UAV_RWBYTEADDRESS resource info =
     info\<lparr>storageBuffers := storageBuffers info @ [resource]\<rparr>"
| "push_bound_resource D3D_SIT_UAV_APPEND_STRUCTURED resource info =
     info\<lparr>storageBuffers := storageBuffers info @ [resource]\<rparr>"
| "push_bound_resource D3D_SIT_UAV_CONSUME_STRUCTURED resource info =
     info\<lparr>storageBuffers := storageBuffers info @ [resource]\<rparr>"
| "push_bound_resource D3D_SIT_UAV_RWSTRUCTURED_WITH_COUNTER resource info =
     info\<lparr>storageBuffers := storageBuffers info @ [resource]\<rparr>"
| "push_bound_resource D3D_SIT_UAV_FEEDBACKTEXTURE resource info =
     info\<lparr>storageBuffers := storageBuffers info @ [resource]\<rparr>"
| "push_bound_resource _ resource info = info"

definition bound_resource_step ::
  "ID3D12ShaderReflection \<Rightarrow> ShaderReflectionInfo \<Rightarrow> u32 \<Rightarrow> ShaderReflectionInfo" where
  "bound_resource_step R info i =
     (case GetResourceBindingDesc R i of
        None \<Rightarrow> info
      | Some bindDesc \<Rightarrow>
          push_bound_resource (bind_Type bindDesc)
            \<lparr>res_name = c_str_or_empty (bind_Name bindDesc), res_id = i,
             res_set = Space bindDesc, res_binding = BindPoint bindDesc,
             res_count = BindCount bindDesc\<rparr> info)"

text \<open>One signature parameter as a stage input or output entry.\<close>

definition signature_entry :: "u32 \<Rightarrow> D3D12_SIGNATURE_PARAMETER_DESC \<Rightarrow> ShaderStageIOInfo" where
  "signature_entry i paramDesc =
     (let vecSize = countMask (ucast (Mask paramDesc))
      in \<lparr>io_name = semantic_name (c_str_or_empty (SemanticName paramDesc)) (SemanticIndex paramDesc),
          io_id = i,
          io_location = Register paramDesc,
          io_format = IGNITE_Map3DComponent (ComponentType paramDesc) vecSize,
          io_vecSize = vecSize,
          io_columns = 1\<rparr>)"

record InputAttribute =
  registerIndex :: u32
  semanticName :: string
  semanticIndex :: u32
  input_mask :: u32
  componentType :: D3D_REGISTER_COMPONENT_TYPE

definition input_attribute :: "D3D12_SIGNATURE_PARAMETER_DESC \<Rightarrow> InputAttribute" where
  "input_attribute paramDesc =
     \<lparr>registerIndex = Register paramDesc,
      semanticName = c_str_or_empty (SemanticName paramDesc),
      semanticIndex = SemanticIndex paramDesc,
      input_mask = ucast (Mask paramDesc),
      componentType = ComponentType paramDesc\<rparr>"

text \<open>The vertex-layout loop of the DXIL path, over the sorted \<open>inputs\<close> vector.\<close>

fun DXIL_vertex_loop ::
  "u32 \<Rightarrow> InputAttribute list \<Rightarrow> VertexAttribute list \<times> u32 \<times> event list" where
  "DXIL_vertex_loop offset [] = ([], offset, [])"
| "DXIL_vertex_loop offset (input # rest) =
     (let elementCount = countMask (input_mask input);
          elementFormat = IGNITE_Map3DComponent (componentType input) elementCount
      in if elementFormat = IGNITE_VERTEX_ELEMENT_FORMAT_INVALID then
           (case DXIL_vertex_loop offset rest of
              (attrs, final, logs) \<Rightarrow>
                (attrs, final,
                 Log IGNITE_LOG_TYPE_WARNING
                   (''DXIL reflection: unsupported vertex input format for semantic ''
                      @ semanticName input) # logs))
         else
           (let attribute = \<lparr>attr_name = semantic_name (semanticName input) (semanticIndex input),
                             attr_format = elementFormat, attr_bufferIndex = 0,
                             attr_offset = offset, attr_elementStride = 0\<rparr>;
                componentSize = 4;
                attributeSize = componentSize * elementCount
            in case DXIL_vertex_loop (offset + attributeSize) rest of
                 (attrs, final, logs) \<Rightarrow> (attribute # attrs, final, logs)))"

definition DXIL_complete_message :: "ShaderReflectionInfo \<Rightarrow> string" where
  "DXIL_complete_message info =
     ''DXIL reflection complete: '' @ IGNITE_GetShaderTypeString (shaderType info)
       @ '' | UBO='' @ to_string (numUniformBuffers info)
       @ '' Sampled='' @ to_string (numSamplers info)
       @ '' StorageBuf='' @ to_string (numStorageBuffers info)
       @ '' Inputs='' @ to_string (numStageInputs info)
       @ '' Outputs='' @ to_string (numStageOutputs info)"

text \<open>The part of \<open>DXILReflect\<close> after the shader description has been read.\<close>

definition DXIL_collect ::
  "ID3D12ShaderReflection \<Rightarrow> D3D12_SHADER_DESC \<Rightarrow> ShaderReflectionInfo
     \<Rightarrow> ShaderReflectionInfo \<times> event list" where
  "DXIL_collect R shaderDesc info0 =
     (let info1 = info0\<lparr>uniformBuffers := uniformBuffers info0 @
                  List.map_filter (cbuffer_entry R shaderDesc) (indices (ConstantBuffers shaderDesc))\<rparr>;
          info2 = foldl (bound_resource_step R) info1 (indices (BoundResources shaderDesc));
          info3 = info2
            \<lparr>numUniformBuffers := length (uniformBuffers info2),
             numSamplers := length (sampledImages info2),
             numStorageTextures := length (storageImages info2),
             numStorageBuffers := length (storageBuffers info2),
             numSeparateSamplers := length (separateSamplers info2),
             numSeparateImages := length (separateImages info2),
             numPushConstants := length (pushConstants info2)\<rparr>;
          inputDescs = List.map_filter (\<lambda>i. map_option (Pair i) (GetInputParameterDesc R i))
                         (indices (InputParameters shaderDesc));
          outputDescs = List.map_filter (\<lambda>i. map_option (Pair i) (GetOutputParameterDesc R i))
                          (indices (OutputParameters shaderDesc));
          inputs = (if shaderType info3 = IGNITE_SHADER_TYPE_VERTEX
                    then map (\<lambda>(i, paramDesc). input_attribute paramDesc) inputDescs else []);
          info4 = info3
            \<lparr>stageInputs := stageInputs info3 @ map (\<lambda>(i, paramDesc). signature_entry i paramDesc) inputDescs\<rparr>;
          info5 = info4
            \<lparr>stageOutputs := stageOutputs info4 @ map (\<lambda>(i, paramDesc). signature_entry i paramDesc) outputDescs\<rparr>;
          info6 = info5
            \<lparr>stageInputs := std_sort io_location (stageInputs info5),
             stageOutputs := std_sort io_location (stageOutputs info5)\<rparr>;
          info7 = info6
            \<lparr>numStageInputs := length (stageInputs info6),
             numStageOutputs := length (stageOutputs info6)\<rparr>
      in if shaderType info7 = IGNITE_SHADER_TYPE_VERTEX \<and> inputs \<noteq> [] then
           (case DXIL_vertex_loop 0 (std_sort registerIndex inputs) of
              (attrs, stride, logs) \<Rightarrow>
                (let info8 = info7\<lparr>vertexAttributes :=
                                     set_stride stride (vertexAttributes info7 @ attrs)\<rparr>
                 in (info8, logs @ [Log IGNITE_LOG_TYPE_INFO (DXIL_complete_message info8)])))
         else (info7, [Log IGNITE_LOG_TYPE_INFO (DXIL_complete_message info7)]))"

text \<open>
  \<open>DXILReflect\<close>. The parameter \<open>win32\<close> is the preprocessor condition \<open>_WIN32\<close>: it
  selects at build time between the body and the single warning of the \<open>#else\<close> branch.
\<close>

definition DXILReflect ::
  "bool \<Rightarrow> d3d_backend \<Rightarrow> IGNITE_ShaderType \<Rightarrow> u8 list \<Rightarrow> ShaderReflectionInfo \<times> event list" where
  "DXILReflect win32 B type shaderCode =
     (let info = initial_info type
      in if \<not> win32 then
           (info,
            [Log IGNITE_LOG_TYPE_WARNING ''DXIL reflection is only available on Windows platform''])
         else if shaderCode = [] \<or> length shaderCode < 4 then
           (info,
            [Log IGNITE_LOG_TYPE_ERROR ''DXIL reflection failed: shader blob is empty or too small.''])
         else
           (let (attempt, calls) =
                  (case DxcContainerReflection B shaderCode of
                     Some R \<Rightarrow> (Inr R, [Call DxcContainerReflection_call])
                   | None \<Rightarrow> (D3DReflect B shaderCode,
                              [Call DxcContainerReflection_call, Call D3DReflect_call]))
            in case attempt of
                 Inl result \<Rightarrow>
                   (info,
                    calls @ [Log IGNITE_LOG_TYPE_ERROR
                               (''DXIL reflection failed. HRESULT='' @ to_string (unat result))])
               | Inr R \<Rightarrow>
                   (case GetDesc R of
                      Inl result \<Rightarrow>
                        (info,
                         calls @ [Call ID3D12ShaderReflection_GetDesc_call,
                                  Log IGNITE_LOG_TYPE_ERROR
                                    (''DXIL reflection failed while reading shader description. HRESULT=''
                                       @ to_string (unat result))])
                    | Inr shaderDesc \<Rightarrow>
                        (case DXIL_collect R shaderDesc info of
                           (info', logs) \<Rightarrow>
                             (info',
                              calls @ [Call ID3D12ShaderReflection_GetDesc_call,
                                       Log IGNITE_LOG_TYPE_INFO
                                         (''DXIL reflection: '' @ IGNITE_GetShaderTypeString type)]
                                @ logs)))))"

section \<open>C entry points for reflection (ShaderCompilerCAPI)\<close>

text \<open>
  The C structs hold heap copies: a \<open>char*\<close> name is \<open>None\<close> when null, an array pointer is
  \<open>None\<close> when null. \<open>std::malloc\<close> and \<open>std::calloc\<close> may fail; \<open>heap\<close> says for the
  n-th allocation request of a call whether it succeeds, and the fill helpers thread the
  number of requests made so far.
\<close>

record IgniteVertexAttribute =
  c_attr_name :: "string option"
  c_attr_format :: IGNITE_VertexElementFormat
  c_attr_bufferIndex :: u32
  c_attr_offset :: u32
  c_attr_elementStride :: u32

record IgniteShaderResourceInfo =
  c_res_name :: "string option"
  c_res_id :: u32
  c_res_set :: u32
  c_res_binding :: u32
  c_res_count :: u32

record IgniteShaderStageIOInfo =
  c_io_name :: "string option"
  c_io_id :: u32
  c_io_location :: u32
  c_io_format :: IGNITE_VertexElementFormat
  c_io_vecSize :: u32
  c_io_columns :: u32

record IgniteShaderPushConstantInfo =
  c_pc_name :: "string option"
  c_pc_size :: u32

record IgniteShaderReflectionInfo =
  c_shaderType :: IGNITE_ShaderType
  c_numUniformBuffers :: nat
  c_numSamplers :: nat
  c_numStorageTextures :: nat
  c_numStorageBuffers :: nat
  c_numSeparateSamplers :: nat
  c_numSeparateImages :: nat
  c_numPushConstants :: nat
  c_numStageInputs :: nat
  c_numStageOutputs :: nat
  c_uniformBuffers :: "IgniteShaderResourceInfo list option"
  c_sampledImages :: "IgniteShaderResourceInfo list option"
  c_storageImages :: "IgniteShaderResourceInfo list option"
  c_storageBuffers :: "IgniteShaderResourceInfo list option"
  c_separateSamplers :: "IgniteShaderResourceInfo list option"
  c_separateImages :: "IgniteShaderResourceInfo list option"
  c_pushConstants :: "IgniteShaderPushConstantInfo list option"
  c_stageInputs :: "IgniteShaderStageIOInfo list option"
  c_stageOutputs :: "IgniteShaderStageIOInfo list option"
  c_vertexAttributes :: "IgniteVertexAttribute list option"
  c_vertexAttributeCount :: nat

text \<open>
  \<open>std::memset(outReflectionInfo, 0, sizeof(*outReflectionInfo))\<close>: every counter 0, every
  pointer null, the stage the enumerator with value 0.
\<close>

definition zeroed_info :: IgniteShaderReflectionInfo where
  "zeroed_info =
     \<lparr>c_shaderType = IGNITE_SHADER_TYPE_VERTEX,
      c_numUniformBuffers = 0, c_numSamplers = 0, c_numStorageTextures = 0,
      c_numStorageBuffers = 0, c_numSeparateSamplers = 0, c_numSeparateImages = 0,
      c_numPushConstants = 0, c_numStageInputs = 0, c_numStageOutputs = 0,
      c_uniformBuffers = None, c_sampledImages = None, c_storageImages = None,
      c_storageBuffers = None, c_separateSamplers = None, c_separateImages = None,
      c_pushConstants = None, c_stageInputs = None, c_stageOutputs = None,
      c_vertexAttributes = None, c_vertexAttributeCount = 0\<rparr>"

type_synonym heap = "nat \<Rightarrow> bool"

text \<open>
  The shape shared by \<open>FillResourceArray\<close>, \<open>FillStageIOArray\<close>, \<open>FillPushConstantArray\<close>
  and \<open>FillVertexArray\<close>: an empty source succeeds with a null array and no allocation; a
  failed \<open>calloc\<close> returns false; otherwise each element is copied, its name through
  \<open>DuplicateCString\<close> (null when that \<open>malloc\<close> fails, and the copy goes on).
  The result is (success, array, allocation requests made so far).
\<close>

definition FillArray ::
  "('a \<Rightarrow> string) \<Rightarrow> (string option \<Rightarrow> 'a \<Rightarrow> 'b) \<Rightarrow> heap \<Rightarrow> nat \<Rightarrow> 'a list
     \<Rightarrow> bool \<times> 'b list option \<times> nat" where
  "FillArray name_of copy H k source =
     (if source = [] then (True, None, k)
      else if \<not> H k then (False, None, Suc k)
      else (True,
            Some (map (\<lambda>(j, x). copy (if H (Suc k + j) then Some (name_of x) else None) x)
                      (enumerate 0 source)),
            Suc k + length source))"

definition FillResourceArray ::
  "heap \<Rightarrow> nat \<Rightarrow> ShaderResourceInfo list \<Rightarrow> bool \<times> IgniteShaderResourceInfo list option \<times> nat" where
  "FillResourceArray =
     FillArray res_name
       (\<lambda>n x. \<lparr>c_res_name = n, c_res_id = res_id x, c_res_set = res_set x,
               c_res_binding = res_binding x, c_res_count = res_count x\<rparr>)"

definition FillStageIOArray ::
  "heap \<Rightarrow> nat \<Rightarrow> ShaderStageIOInfo list \<Rightarrow> bool \<times> IgniteShaderStageIOInfo list option \<times> nat" where
  "FillStageIOArray =
     FillArray io_name
       (\<lambda>n x. \<lparr>c_io_name = n, c_io_id = io_id x, c_io_location = io_location x,
               c_io_format = io_format x, c_io_vecSize = io_vecSize x,
               c_io_columns = io_columns x\<rparr>)"

definition FillPushConstantArray ::
  "heap \<Rightarrow> nat \<Rightarrow> ShaderPushConstantInfo list
     \<Rightarrow> bool \<times> IgniteShaderPushConstantInfo list option \<times> nat" where
  "FillPushConstantArray =
     FillArray pc_name (\<lambda>n x. \<lparr>c_pc_name = n, c_pc_size = pc_size x\<rparr>)"

definition FillVertexArray ::
  "heap \<Rightarrow> nat \<Rightarrow> VertexAttribute list \<Rightarrow> bool \<times> IgniteVertexAttribute list option \<times> nat" where
  "FillVertexArray =
     FillArray attr_name
       (\<lambda>n x. \<lparr>c_attr_name = n, c_attr_format = attr_format x,
               c_attr_bufferIndex = attr_bufferIndex x, c_attr_offset = attr_offset x,
               c_attr_elementStride = attr_elementStride x\<rparr>)"

text \<open>
  The chain \<open>!Fill(...) || !Fill(...) || ...\<close> of \<open>FillCReflectionInfo\<close> runs the fills in
  order and stops at the first that fails. A step takes the heap, the request count and
  the output struct, and returns (success, new struct, new count).
\<close>

type_synonym fill_step =
  "heap \<Rightarrow> nat \<Rightarrow> IgniteShaderReflectionInfo \<Rightarrow> bool \<times> IgniteShaderReflectionInfo \<times> nat"

fun run_fills :: "fill_step list \<Rightarrow> heap \<Rightarrow> nat \<Rightarrow> IgniteShaderReflectionInfo
                    \<Rightarrow> bool \<times> IgniteShaderReflectionInfo" where
  "run_fills [] H k out = (True, out)"
| "run_fills (step # steps) H k out =
     (case step H k out of
        (ok, out', k') \<Rightarrow> if ok then run_fills steps H k' out' else (False, out'))"

definition fill_steps :: "ShaderReflectionInfo \<Rightarrow> fill_step list" where
  "fill_steps reflection =
     [\<lambda>H k out. case FillResourceArray H k (uniformBuffers reflection) of
                  (ok, a, k') \<Rightarrow> (ok, out\<lparr>c_uniformBuffers := a\<rparr>, k'),
      \<lambda>H k out. case FillResourceArray H k (sampledImages reflection) of
                  (ok, a, k') \<Rightarrow> (ok, out\<lparr>c_sampledImages := a\<rparr>, k'),
      \<lambda>H k out. case FillResourceArray H k (storageImages reflection) of
                  (ok, a, k') \<Rightarrow> (ok, out\<lparr>c_storageImages := a\<rparr>, k'),
      \<lambda>H k out. case FillResourceArray H k (storageBuffers reflection) of
                  (ok, a, k') \<Rightarrow> (ok, out\<lparr>c_storageBuffers := a\<rparr>, k'),
      \<lambda>H k out. case FillResourceArray H k (separateSamplers reflection) of
                  (ok, a, k') \<Rightarrow> (ok, out\<lparr>c_separateSamplers := a\<rparr>, k'),
      \<lambda>H k out. case FillResourceArray H k (separateImages reflection) of
                  (ok, a, k') \<Rightarrow> (ok, out\<lparr>c_separateImages := a\<rparr>, k'),
      \<lambda>H k out. case FillPushConstantArray H k (pushConstants reflection) of
                  (ok, a, k') \<Rightarrow> (ok, out\<lparr>c_pushConstants := a\<rparr>, k'),
      \<lambda>H k out. case FillStageIOArray H k (stageInputs reflection) of
                  (ok, a, k') \<Rightarrow> (ok, out\<lparr>c_stageInputs := a\<rparr>, k'),
      \<lambda>H k out. case FillStageIOArray H k (stageOutputs reflection) of
                  (ok, a, k') \<Rightarrow> (ok, out\<lparr>c_stageOutputs := a\<rparr>, k'),
      \<lambda>H k out. case FillVertexArray H k (vertexAttributes reflection) of
                  (ok, a, k') \<Rightarrow> (ok, out\<lparr>c_vertexAttributes := a\<rparr>, k')]"

definition FillCReflectionInfo ::
  "heap \<Rightarrow> ShaderReflectionInfo \<Rightarrow> IgniteShaderReflectionInfo
     \<Rightarrow> IGNITE_ResultCode \<times> IgniteShaderReflectionInfo" where
  "FillCReflectionInfo H reflection out0 =
     (let out1 = out0
            \<lparr>c_shaderType := shaderType reflection,
             c_numUniformBuffers := numUniformBuffers reflection,
             c_numSamplers := numSamplers reflection,
             c_numStorageTextures := numStorageTextures reflection,
             c_numStorageBuffers := numStorageBuffers reflection,
             c_numSeparateSamplers := numSeparateSamplers reflection,
             c_numSeparateImages := numSeparateImages reflection,
             c_numPushConstants := numPushConstants reflection,
             c_numStageInputs := numStageInputs reflection,
             c_numStageOutputs := numStageOutputs reflection,
             c_vertexAttributeCount := length (vertexAttributes reflection)\<rparr>
      in case run_fills (fill_steps reflection) H 0 out1 of
           (ok, out2) \<Rightarrow>
             (if ok then IGNITE_RESULT_OK else IGNITE_RESULT_INTERNAL_ERROR, out2))"

text \<open>\<open>IgniteCompiler_FreeReflectionInfo\<close> releases every array and zeroes the struct.\<close>

definition IgniteCompiler_FreeReflectionInfo ::
  "IgniteShaderReflectionInfo \<Rightarrow> IgniteShaderReflectionInfo" where
  "IgniteCompiler_FreeReflectionInfo reflectionInfo = zeroed_info"

text \<open>
  The two entry points. The data pointer is \<open>None\<close> when null and otherwise the
  \<open>sizeInBytes\<close> bytes it points to; the output pointer is \<open>None\<close> when null and otherwise
  the struct it points to. The result is the code returned, the output struct afterwards
  and the trace of the reflect call. The modelled reflect functions throw nothing, so the
  \<open>catch (...)\<close> branch of the source has no counterpart here.
\<close>

definition IgniteCompiler_ReflectSPIRV ::
  "heap \<Rightarrow> spvc_backend \<Rightarrow> u8 list option \<Rightarrow> IGNITE_ShaderType
     \<Rightarrow> IgniteShaderReflectionInfo option
     \<Rightarrow> IGNITE_ResultCode \<times> IgniteShaderReflectionInfo option \<times> event list" where
  "IgniteCompiler_ReflectSPIRV H B spirvData type outReflectionInfo =
     (case (spirvData, outReflectionInfo) of
        (Some bytes, Some out) \<Rightarrow>
          if length bytes = 0 then (IGNITE_RESULT_INVALID_ARGUMENT, outReflectionInfo, [])
          else
            (case SPIRVReflect B type bytes of
               (reflection, events) \<Rightarrow>
                 (case FillCReflectionInfo H reflection zeroed_info of
                    (result, filled) \<Rightarrow>
                      (result,
                       Some (if result \<noteq> IGNITE_RESULT_OK
                             then IgniteCompiler_FreeReflectionInfo filled else filled),
                       events)))
      | _ \<Rightarrow> (IGNITE_RESULT_INVALID_ARGUMENT, outReflectionInfo, []))"

definition IgniteCompiler_ReflectDXIL ::
  "bool \<Rightarrow> heap \<Rightarrow> d3d_backend \<Rightarrow> u8 list option \<Rightarrow> IGNITE_ShaderType
     \<Rightarrow> IgniteShaderReflectionInfo option
     \<Rightarrow> IGNITE_ResultCode \<times> IgniteShaderReflectionInfo option \<times> event list" where
  "IgniteCompiler_ReflectDXIL win32 H B dxilData type outReflectionInfo =
     (case (dxilData, outReflectionInfo) of
        (Some bytes, Some out) \<Rightarrow>
          if length bytes = 0 then (IGNITE_RESULT_INVALID_ARGUMENT, outReflectionInfo, [])
          else
            (case DXILReflect win32 B type bytes of
               (reflection, events) \<Rightarrow>
                 (case FillCReflectionInfo H reflection zeroed_info of
                    (result, filled) \<Rightarrow>
                      (result,
                       Some (if result \<noteq> IGNITE_RESULT_OK
                             then IgniteCompiler_FreeReflectionInfo filled else filled),
                       events)))
      | _ \<Rightarrow> (IGNITE_RESULT_INVALID_ARGUMENT, outReflectionInfo, []))"

section \<open>Argument synthesis (ShaderCompiler::CompileDXC)\<close>

text \<open>
  The fields of \<open>ShaderDesc\<close> and \<open>CompilerOptions\<close> that the argument list depends on.
  Paths are kept as their string form. The member \<open>defines\<close> is \<open>optDefines\<close> here and
  \<open>ShaderDesc::shaderType\<close> is \<open>desc_shaderType\<close>.
\<close>

record ShaderDesc =
  entryPoint :: string
  shaderModel :: string
  vulkanVersion :: string
  vulkanMemoryLayout :: string
  desc_shaderType :: IGNITE_ShaderType
  optLevel :: IGNITE_OptimizationLevel

record CompilerOptions =
  platformType :: IGNITE_ShaderPlatformType
  filepath :: string
  includeDirectories :: "string list"
  spirvExtensions :: "string list"
  compilerOptions :: "string list"
  optDefines :: "string list"
  tRegShift :: u32
  sRegShift :: u32
  bRegShift :: u32
  uRegShift :: u32
  shaderDesc :: ShaderDesc
  warningsAreErrors :: bool
  allResourcesBound :: bool
  embedPdb :: bool
  stripReflection :: bool
  matrixRowMajor :: bool
  hlsl2021 :: bool

definition SPIRV_SPACES_NUM :: nat where
  "SPIRV_SPACES_NUM = 8"

text \<open>
  The argument macros come from dxcapi.h of the DirectX Shader Compiler, which the
  repository includes but does not contain; the values below are the ones that header
  defines.
\<close>

definition DXC_ARG_SKIP_OPTIMIZATIONS :: string where
  "DXC_ARG_SKIP_OPTIMIZATIONS = ''-Od''"

definition DXC_ARG_OPTIMIZATION_LEVEL1 :: string where
  "DXC_ARG_OPTIMIZATION_LEVEL1 = ''-O1''"

definition DXC_ARG_OPTIMIZATION_LEVEL2 :: string where
  "DXC_ARG_OPTIMIZATION_LEVEL2 = ''-O2''"

definition DXC_ARG_OPTIMIZATION_LEVEL3 :: string where
  "DXC_ARG_OPTIMIZATION_LEVEL3 = ''-O3''"

definition DXC_ARG_WARNINGS_ARE_ERRORS :: string where
  "DXC_ARG_WARNINGS_ARE_ERRORS = ''-WX''"

definition DXC_ARG_ALL_RESOURCES_BOUND :: string where
  "DXC_ARG_ALL_RESOURCES_BOUND = ''-all_resources_bound''"

definition DXC_ARG_PACK_MATRIX_ROW_MAJOR :: string where
  "DXC_ARG_PACK_MATRIX_ROW_MAJOR = ''-Zpr''"

text \<open>
  The static table \<open>dxcOptimizationLevelRemap\<close>, indexed by the optimization level cast to
  an unsigned integer (the enumerators are 0 to 3).
\<close>

fun dxcOptimizationLevelRemap :: "IGNITE_OptimizationLevel \<Rightarrow> string" where
  "dxcOptimizationLevelRemap IGNITE_OPT_LEVEL_0 = DXC_ARG_SKIP_OPTIMIZATIONS"
| "dxcOptimizationLevelRemap IGNITE_OPT_LEVEL_1 = DXC_ARG_OPTIMIZATION_LEVEL1"
| "dxcOptimizationLevelRemap IGNITE_OPT_LEVEL_2 = DXC_ARG_OPTIMIZATION_LEVEL2"
| "dxcOptimizationLevelRemap IGNITE_OPT_LEVEL_3 = DXC_ARG_OPTIMIZATION_LEVEL3"

text \<open>The shaderc levels that \<open>IGNITE_ShaderToShaderCOptLevel\<close> can return (shaderc.h).\<close>

datatype shaderc_optimization_level =
    shaderc_optimization_level_zero
  | shaderc_optimization_level_size
  | shaderc_optimization_level_performance

fun IGNITE_ShaderToShaderCOptLevel :: "IGNITE_OptimizationLevel \<Rightarrow> shaderc_optimization_level" where
  "IGNITE_ShaderToShaderCOptLevel IGNITE_OPT_LEVEL_0 = shaderc_optimization_level_zero"
| "IGNITE_ShaderToShaderCOptLevel _ = shaderc_optimization_level_performance"

fun IGNITE_ShaderTypeToProfile :: "IGNITE_ShaderType \<Rightarrow> string" where
  "IGNITE_ShaderTypeToProfile IGNITE_SHADER_TYPE_VERTEX = ''vs''"
| "IGNITE_ShaderTypeToProfile IGNITE_SHADER_TYPE_PIXEL = ''ps''"
| "IGNITE_ShaderTypeToProfile IGNITE_SHADER_TYPE_GEOMETRY = ''gs''"
| "IGNITE_ShaderTypeToProfile IGNITE_SHADER_TYPE_COMPUTE = ''cs''"
| "IGNITE_ShaderTypeToProfile IGNITE_SHADER_TYPE_TESSELLATION = ''ts''"

text \<open>
  The register-shift block. \<open>(&options.tRegShift)[reg]\<close> reads the \<open>reg\<close>-th of the four
  consecutive \<open>uint32_t\<close> members \<open>tRegShift, sRegShift, bRegShift, uRegShift\<close>. The two
  nested loops push three strings per iteration.
\<close>

definition dxcRegShiftArgs :: "string list" where
  "dxcRegShiftArgs = [''-fvk-t-shift'', ''-fvk-s-shift'', ''-fvk-b-shift'', ''-fvk-u-shift'']"

definition regShift_member :: "CompilerOptions \<Rightarrow> nat \<Rightarrow> u32" where
  "regShift_member options reg =
     [tRegShift options, sRegShift options, bRegShift options, uRegShift options] ! reg"

definition regShifts :: "CompilerOptions \<Rightarrow> string list" where
  "regShifts options =
     foldl (\<lambda>acc reg.
              foldl (\<lambda>acc space.
                       acc @ [dxcRegShiftArgs ! reg,
                              to_string (unat (regShift_member options reg)),
                              to_string space])
                    acc [0..<SPIRV_SPACES_NUM])
           [] [0..<4]"

text \<open>
  \<open>TokenizeCompilerOptions\<close>: splits at unquoted spaces, a backslash takes the next
  character literally, double quotes toggle quoting. The C loop stops at the first NUL of
  \<open>c_str()\<close>.
\<close>

fun Tokenize_loop :: "string \<Rightarrow> string \<Rightarrow> bool \<Rightarrow> bool \<Rightarrow> string list \<Rightarrow> string list" where
  "Tokenize_loop [] current quotes escape out =
     (if current \<noteq> [] then out @ [current] else out)"
| "Tokenize_loop (ch # rest) current quotes escape out =
     (if escape then Tokenize_loop rest (current @ [ch]) quotes False out
      else if ch = CHR '' '' \<and> \<not> quotes then
        Tokenize_loop rest [] quotes escape (if current \<noteq> [] then out @ [current] else out)
      else if ch = CHR 0x5C then Tokenize_loop rest current quotes True out
      else if ch = CHR 0x22 then Tokenize_loop rest current (\<not> quotes) escape out
      else Tokenize_loop rest (current @ [ch]) quotes escape out)"

definition TokenizeCompilerOptions :: "string \<Rightarrow> string list \<Rightarrow> string list" where
  "TokenizeCompilerOptions inp out =
     Tokenize_loop (takeWhile (\<lambda>ch. ch \<noteq> CHR 0x00) inp) [] False False out"

text \<open>
  \<open>shaderModelIndex\<close>: \<open>(shaderModel[0] - '0') * 10 + (shaderModel[2] - '0')\<close>, computed in
  \<open>int\<close> from \<open>char\<close> values (signed with the compiler this function builds with) and
  stored in a \<open>uint32_t\<close>. \<open>std::string::operator[]\<close> at the position equal to the size
  yields the NUL character; a position beyond is undefined, hence \<open>None\<close> for strings
  shorter than two characters.
\<close>

definition char_value :: "char \<Rightarrow> int" where
  "char_value ch = (let n = int (of_char ch) in if n \<ge> 128 then n - 256 else n)"

definition string_at :: "string \<Rightarrow> nat \<Rightarrow> char option" where
  "string_at s pos =
     (if pos < length s then Some (s ! pos)
      else if pos = length s then Some (CHR 0x00)
      else None)"

definition shaderModelIndex :: "string \<Rightarrow> u32 option" where
  "shaderModelIndex model =
     (case (string_at model 0, string_at model 2) of
        (Some major, Some minor) \<Rightarrow>
          Some (word_of_int ((char_value major - char_value (CHR ''0'')) * 10
                              + (char_value minor - char_value (CHR ''0''))))
      | _ \<Rightarrow> None)"

text \<open>
  The vector \<open>args\<close> as \<open>CompileDXC\<close> has built it when it hands it to the compiler, for a
  source file that loaded. \<open>None\<close> when the shader-model string is too short to index.
\<close>

definition CompileDXC_args :: "CompilerOptions \<Rightarrow> string list option" where
  "CompileDXC_args options =
     (case shaderModelIndex (shaderModel (shaderDesc options)) of
        None \<Rightarrow> None
      | Some index \<Rightarrow>
          (let args =
                 [filepath options, ''-T'',
                  AnsiToWide (IGNITE_ShaderTypeToProfile (desc_shaderType (shaderDesc options))
                                @ ''_'' @ shaderModel (shaderDesc options)),
                  ''-E'', AnsiToWide (entryPoint (shaderDesc options))]
                 @ concat (map (\<lambda>define. [''-D'', AnsiToWide define]) (optDefines options))
                 @ concat (map (\<lambda>path. [''-I'', path]) (includeDirectories options))
                 @ [dxcOptimizationLevelRemap (optLevel (shaderDesc options))]
                 @ (if index \<ge> 62 then [''-enable-16bit-types''] else [])
                 @ (if warningsAreErrors options then [DXC_ARG_WARNINGS_ARE_ERRORS] else [])
                 @ (if allResourcesBound options then [DXC_ARG_ALL_RESOURCES_BOUND] else [])
                 @ (if matrixRowMajor options then [DXC_ARG_PACK_MATRIX_ROW_MAJOR] else [])
                 @ (if hlsl2021 options then [''-HV'', ''2021''] else [])
                 @ (if embedPdb options then [''-Qembed_debug''] else [])
                 @ (if platformType options = IGNITE_SHADER_PLATFORM_TYPE_SPIRV then
                      [''-spirv'',
                       ''-fspv-target-env=vulkan'' @ AnsiToWide (vulkanVersion (shaderDesc options))]
                      @ (if vulkanMemoryLayout (shaderDesc options) \<noteq> [] then
                           [''-fvk-use-'' @ AnsiToWide (vulkanMemoryLayout (shaderDesc options))
                              @ ''-layout'']
                         else [])
                      @ map (\<lambda>ext. ''-fspv-extension='' @ AnsiToWide ext) (spirvExtensions options)
                      @ regShifts options
                    else if stripReflection options then [''-Qstrip_reflect''] else [])
           in Some (foldl (\<lambda>args opts. TokenizeCompilerOptions opts args) args
                          (compilerOptions options))))"

section \<open>Vocabulary of the properties\<close>

text \<open>
  The definitions of this section do not model code; they name what the properties below
  talk about.
\<close>

text \<open>
  The stage inputs that get a vertex attribute, the ones that are skipped, and the byte
  size of one attribute: 4 bytes times the vector width, a width of 0 counted as 1.
\<close>

definition emitted :: "ShaderStageIOInfo list \<Rightarrow> ShaderStageIOInfo list" where
  "emitted ins = filter (\<lambda>i. io_format i \<noteq> IGNITE_VERTEX_ELEMENT_FORMAT_INVALID) ins"

definition skipped :: "ShaderStageIOInfo list \<Rightarrow> ShaderStageIOInfo list" where
  "skipped ins = filter (\<lambda>i. io_format i = IGNITE_VERTEX_ELEMENT_FORMAT_INVALID) ins"

definition attribute_size :: "ShaderStageIOInfo \<Rightarrow> u32" where
  "attribute_size i = 4 * (if io_vecSize i > 0 then io_vecSize i else 1)"

text \<open>
  The interleaved single-buffer layout of a list of stage inputs: one attribute per
  emitted input, in order, with its name and format; buffer index 0; the offset of the
  k-th attribute is the sum of the sizes of the k attributes before it; every stride is
  the sum of all sizes. Sums are 32-bit, as in the code.
\<close>

definition interleaved_layout :: "ShaderStageIOInfo list \<Rightarrow> VertexAttribute list \<Rightarrow> bool" where
  "interleaved_layout ins attrs =
     (let sizes = map attribute_size (emitted ins)
      in map attr_name attrs = map io_name (emitted ins)
       \<and> map attr_format attrs = map io_format (emitted ins)
       \<and> map attr_bufferIndex attrs = replicate (length (emitted ins)) 0
       \<and> map attr_offset attrs = map (\<lambda>k. sum_list (take k sizes)) [0..<length (emitted ins)]
       \<and> map attr_elementStride attrs = replicate (length (emitted ins)) (sum_list sizes))"

fun is_warning :: "event \<Rightarrow> bool" where
  "is_warning (Log IGNITE_LOG_TYPE_WARNING message) = True"
| "is_warning _ = False"

text \<open>
  The arguments that \<open>TokenizeCompilerOptions\<close> appends for the caller's free-form
  options, and all strings of the argument list that the caller supplies verbatim.
\<close>

definition extra_tokens :: "CompilerOptions \<Rightarrow> string list" where
  "extra_tokens options =
     foldl (\<lambda>args opts. TokenizeCompilerOptions opts args) [] (compilerOptions options)"

definition caller_strings :: "CompilerOptions \<Rightarrow> string list" where
  "caller_strings options =
     filepath options # AnsiToWide (entryPoint (shaderDesc options))
       # map AnsiToWide (optDefines options) @ includeDirectories options @ extra_tokens options"

text \<open>
  The four register kinds, numbered as the loop visits them: 0 texture (\<open>t\<close>), 1 sampler
  (\<open>s\<close>), 2 constant buffer (\<open>b\<close>), 3 unordered access (\<open>u\<close>); the DXC flag of a kind
  and the base shift the descriptor configures for it, read from the field of that kind.
  One register-shift argument for a (kind, space) pair is the flag of the kind, the base
  shift configured for the kind and the space index. The 32 pairs, kinds outermost.
\<close>

definition shift_flag :: "nat \<Rightarrow> string" where
  "shift_flag kind =
     (if kind = 0 then ''-fvk-t-shift''
      else if kind = 1 then ''-fvk-s-shift''
      else if kind = 2 then ''-fvk-b-shift''
      else ''-fvk-u-shift'')"

definition configured_shift :: "CompilerOptions \<Rightarrow> nat \<Rightarrow> u32" where
  "configured_shift options kind =
     (if kind = 0 then tRegShift options
      else if kind = 1 then sRegShift options
      else if kind = 2 then bRegShift options
      else uRegShift options)"

definition shift_argument :: "CompilerOptions \<Rightarrow> nat \<times> nat \<Rightarrow> string list" where
  "shift_argument options p =
     [shift_flag (fst p), to_string (unat (configured_shift options (fst p))), to_string (snd p)]"

definition kind_space_pairs :: "(nat \<times> nat) list" where
  "kind_space_pairs = List.product [0..<4] [0..<8]"


text \<open>
  \<open>CompilerOptions\<close> with the default member initialisers of ShaderCompiler.h for the
  modelled fields; platform, stage and path have no default and are given.
\<close>

definition default_CompilerOptions ::
  "IGNITE_ShaderPlatformType \<Rightarrow> IGNITE_ShaderType \<Rightarrow> string \<Rightarrow> CompilerOptions" where
  "default_CompilerOptions platform type path =
     \<lparr>platformType = platform, filepath = path, includeDirectories = [],
      spirvExtensions = [''SPV_EXT_descriptor_indexing'', ''KHR''],
      compilerOptions = [], optDefines = [],
      tRegShift = 0, sRegShift = 128, bRegShift = 256, uRegShift = 384,
      shaderDesc = \<lparr>entryPoint = ''main'', shaderModel = ''6_5'', vulkanVersion = ''1.3'',
                     vulkanMemoryLayout = [], desc_shaderType = type,
                     optLevel = IGNITE_OPT_LEVEL_3\<rparr>,
      warningsAreErrors = False, allResourcesBound = False, embedPdb = False,
      stripReflection = False, matrixRowMajor = False, hlsl2021 = False\<rparr>"

section \<open>Concrete inputs\<close>

text \<open>
  A vertex shader compiled from \<open>shader.hlsl\<close> with a given target, optimization tier and
  shader model, everything else default.
\<close>

definition sample_options ::
  "IGNITE_ShaderPlatformType \<Rightarrow> IGNITE_OptimizationLevel \<Rightarrow> string \<Rightarrow> CompilerOptions" where
  "sample_options platform tier model =
     (default_CompilerOptions platform IGNITE_SHADER_TYPE_VERTEX ''shader.hlsl'')
       \<lparr>shaderDesc :=
          \<lparr>entryPoint = ''main'', shaderModel = model, vulkanVersion = ''1.3'',
           vulkanMemoryLayout = [], desc_shaderType = IGNITE_SHADER_TYPE_VERTEX,
           optLevel = tier\<rparr>\<rparr>"


definition flag_passing_options :: CompilerOptions where
  "flag_passing_options =
     (sample_options IGNITE_SHADER_PLATFORM_TYPE_DXIL IGNITE_OPT_LEVEL_3 ''6.0'')
       \<lparr>compilerOptions := [''-enable-16bit-types'']\<rparr>"

text \<open>A heap on which every allocation succeeds, and a four-byte blob.\<close>

definition sample_heap :: heap where
  "sample_heap = (\<lambda>n. True)"

definition sample_code :: "u8 list" where
  "sample_code = [3, 2, 35, 7]"

text \<open>
  SPIRV-Cross answers for a vertex shader that declares, in this order, a \<open>mat4\<close> input at
  location 2 and two \<open>vec2\<close> inputs at locations 1 and 0, and nothing else.
\<close>

definition sample_spvc :: spvc_backend where
  "sample_spvc =
     \<lparr>spvc_context_create = True,
      spvc_context_parse_spirv = (\<lambda>bytes. True),
      spvc_context_create_compiler = True,
      spvc_compiler_create_shader_resources = True,
      spvc_resources_get_resource_list_for_type =
        (\<lambda>t. if t = SPVC_RESOURCE_TYPE_STAGE_INPUT then
               Some [\<lparr>rr_id = 12, rr_base_type_id = 3, rr_type_id = 3, rr_name = Some ''model''\<rparr>,
                     \<lparr>rr_id = 11, rr_base_type_id = 2, rr_type_id = 2, rr_name = Some ''uv''\<rparr>,
                     \<lparr>rr_id = 10, rr_base_type_id = 2, rr_type_id = 2, rr_name = Some ''position''\<rparr>]
             else Some []),
      spvc_compiler_get_decoration = (\<lambda>i d. if d = SpvDecorationLocation then i - 10 else 0),
      spvc_compiler_get_type_handle =
        (\<lambda>t. if t = 2 then
               Some \<lparr>spvc_type_get_basetype = SPVC_BASETYPE_FP32, spvc_type_get_vector_size = 2,
                     spvc_type_get_columns = 1\<rparr>
             else if t = 3 then
               Some \<lparr>spvc_type_get_basetype = SPVC_BASETYPE_FP32, spvc_type_get_vector_size = 4,
                     spvc_type_get_columns = 4\<rparr>
             else None),
      spvc_compiler_get_declared_struct_size = (\<lambda>h. None)\<rparr>"

text \<open>
  Direct3D answers for a vertex shader whose input signature lists \<open>TEXCOORD\<close> (register 1,
  two float components) before \<open>POSITION\<close> (register 0, three float components), with one
  read-write structured buffer bound and nothing else. The legacy path would fail with
  \<open>E_FAIL\<close>.
\<close>

definition sample_reflection :: ID3D12ShaderReflection where
  "sample_reflection =
     \<lparr>GetDesc = Inr \<lparr>ConstantBuffers = 0, BoundResources = 1, InputParameters = 2,
                       OutputParameters = 0\<rparr>,
      GetConstantBufferDesc = (\<lambda>i. None),
      GetResourceBindingDesc =
        (\<lambda>i. if i = 0 then
               Some \<lparr>bind_Name = Some ''particles'', bind_Type = D3D_SIT_UAV_RWSTRUCTURED,
                     BindPoint = 0, BindCount = 1, Space = 0\<rparr>
             else None),
      GetInputParameterDesc =
        (\<lambda>i. if i = 0 then
               Some \<lparr>SemanticName = Some ''TEXCOORD'', SemanticIndex = 0, Register = 1,
                     ComponentType = D3D_REGISTER_COMPONENT_FLOAT32, Mask = 3\<rparr>
             else if i = 1 then
               Some \<lparr>SemanticName = Some ''POSITION'', SemanticIndex = 0, Register = 0,
                     ComponentType = D3D_REGISTER_COMPONENT_FLOAT32, Mask = 7\<rparr>
             else None),
      GetOutputParameterDesc = (\<lambda>i. None)\<rparr>"

definition sample_d3d :: d3d_backend where
  "sample_d3d =
     \<lparr>DxcContainerReflection = (\<lambda>bytes. Some sample_reflection),
      D3DReflect = (\<lambda>bytes. Inl 2147500037)\<rparr>"

section \<open>The type mappers\<close>

text \<open>
  Claim C5. Both type mappers send a two-wide 32-bit float vector (one column) to
  \<open>IGNITE_VERTEX_ELEMENT_FORMAT_FLOAT2\<close>, and for each of the three supported scalar kinds
  a four-wide vector is never sent to the invalid sentinel by either mapper.
\<close>

theorem type_mappers_float2_and_width4:
  "IGNITE_Map3DComponent D3D_REGISTER_COMPONENT_FLOAT32 2 = IGNITE_VERTEX_ELEMENT_FORMAT_FLOAT2
   \<and> IGNITE_MapSpvcType (vector_type Float32 2) = IGNITE_VERTEX_ELEMENT_FORMAT_FLOAT2
   \<and> IGNITE_Map3DComponent (d3d_kind k) 4 \<noteq> IGNITE_VERTEX_ELEMENT_FORMAT_INVALID
   \<and> IGNITE_MapSpvcType (vector_type k 4) \<noteq> IGNITE_VERTEX_ELEMENT_FORMAT_INVALID"
  by (cases k) (simp_all add: IGNITE_MapSpvcType_def vector_type_def)

text \<open>
  Claim C6. The two tables differ exactly on three- and four-wide floats: there the
  Direct3D mapper returns the format one enumeration slot below the one the SPIR-V mapper
  returns; on every other supported kind and width from 1 to 4 the two mappers agree.
\<close>

theorem type_mappers_asymmetry:
  assumes "w \<in> {1, 2, 3, 4}"
  shows "(k = Float32 \<and> (w = 3 \<or> w = 4) \<longrightarrow>
            format_slot (IGNITE_Map3DComponent (d3d_kind k) w) + 1
              = format_slot (IGNITE_MapSpvcType (vector_type k w)))
       \<and> (\<not> (k = Float32 \<and> (w = 3 \<or> w = 4)) \<longrightarrow>
            IGNITE_Map3DComponent (d3d_kind k) w = IGNITE_MapSpvcType (vector_type k w))"
  using assms by (cases k) (auto simp: IGNITE_MapSpvcType_def vector_type_def)

theorem type_mappers_asymmetry_witness:
  "(3::u32) \<in> {1, 2, 3, 4}
   \<and> format_slot (IGNITE_Map3DComponent D3D_REGISTER_COMPONENT_FLOAT32 3) = 10
   \<and> format_slot (IGNITE_MapSpvcType (vector_type Float32 3)) = 11
   \<and> IGNITE_Map3DComponent D3D_REGISTER_COMPONENT_SINT32 3
       = IGNITE_MapSpvcType (vector_type SignedInt32 3)"
  using type_mappers_asymmetry [of 3 Float32] type_mappers_asymmetry [of 3 SignedInt32]
  by (simp add: IGNITE_MapSpvcType_def vector_type_def)

section \<open>Reflection calls that return before reflecting\<close>

lemma FillArray_Nil: "FillArray name_of copy H k [] = (True, None, k)"
  by (simp add: FillArray_def)

lemma FillCReflectionInfo_initial:
  "FillCReflectionInfo H (initial_info type) zeroed_info
     = (IGNITE_RESULT_OK, zeroed_info\<lparr>c_shaderType := type\<rparr>)"
  by (simp add: FillCReflectionInfo_def fill_steps_def initial_info_def zeroed_info_def
      FillResourceArray_def FillStageIOArray_def FillPushConstantArray_def FillVertexArray_def
      FillArray_Nil)

lemma initial_info_simps:
  "shaderType (initial_info type) = type"
  "uniformBuffers (initial_info type) = []"
  "sampledImages (initial_info type) = []"
  "storageImages (initial_info type) = []"
  "storageBuffers (initial_info type) = []"
  "separateSamplers (initial_info type) = []"
  "separateImages (initial_info type) = []"
  "pushConstants (initial_info type) = []"
  "stageInputs (initial_info type) = []"
  "stageOutputs (initial_info type) = []"
  "vertexAttributes (initial_info type) = []"
  "numStorageTextures (initial_info type) = 0"
  "numSeparateImages (initial_info type) = 0"
  "numPushConstants (initial_info type) = 0"
  by (simp_all add: initial_info_def)

lemma SPIRVReflect_misaligned:
  "length shaderCode mod 4 \<noteq> 0 \<Longrightarrow>
   SPIRVReflect B type shaderCode =
     (initial_info type,
      [Log IGNITE_LOG_TYPE_ERROR
         ''SPIRV reflection failed: shader blob size is not aligned to 4 bytes.''])"
  by (simp add: SPIRVReflect_def)

lemma DXILReflect_not_win32:
  "DXILReflect False B type shaderCode =
     (initial_info type,
      [Log IGNITE_LOG_TYPE_WARNING ''DXIL reflection is only available on Windows platform''])"
  by (simp add: DXILReflect_def)

text \<open>
  Claim C1. A SPIR-V blob whose length is not a multiple of 4 is rejected at once:
  \<open>SPIRVReflect\<close> does nothing but log the error "shader blob size is not aligned to 4
  bytes" (no call into SPIRV-Cross, so no parse attempt) and returns a reflection whose ten
  lists are all empty. Through the C entry point the same single error is logged and the
  output struct is the zeroed one with only the stage filled in: all arrays null, all
  counters 0. The entry point has no result code for this failure and returns
  \<open>IGNITE_RESULT_OK\<close>.
\<close>

theorem spirv_misaligned_blob_rejected:
  assumes "length shaderCode mod 4 \<noteq> 0"
  shows "snd (SPIRVReflect B type shaderCode) =
           [Log IGNITE_LOG_TYPE_ERROR
              ''SPIRV reflection failed: shader blob size is not aligned to 4 bytes.'']
       \<and> (let info = fst (SPIRVReflect B type shaderCode)
          in uniformBuffers info = [] \<and> sampledImages info = [] \<and> storageImages info = []
           \<and> storageBuffers info = [] \<and> separateSamplers info = [] \<and> separateImages info = []
           \<and> pushConstants info = [] \<and> stageInputs info = [] \<and> stageOutputs info = []
           \<and> vertexAttributes info = [])
       \<and> IgniteCompiler_ReflectSPIRV H B (Some shaderCode) type (Some out) =
           (IGNITE_RESULT_OK, Some (zeroed_info\<lparr>c_shaderType := type\<rparr>),
            [Log IGNITE_LOG_TYPE_ERROR
               ''SPIRV reflection failed: shader blob size is not aligned to 4 bytes.''])"
proof -
  from assms have "length shaderCode \<noteq> 0" by auto
  with assms show ?thesis
    by (simp add: SPIRVReflect_misaligned initial_info_simps IgniteCompiler_ReflectSPIRV_def
        FillCReflectionInfo_initial)
qed

theorem spirv_misaligned_blob_rejected_witness:
  "length [3, 2, 35 :: u8] mod 4 \<noteq> 0
   \<and> SPIRVReflect sample_spvc IGNITE_SHADER_TYPE_PIXEL [3, 2, 35] =
       (initial_info IGNITE_SHADER_TYPE_PIXEL,
        [Log IGNITE_LOG_TYPE_ERROR
           ''SPIRV reflection failed: shader blob size is not aligned to 4 bytes.''])
   \<and> IgniteCompiler_ReflectSPIRV sample_heap sample_spvc (Some [3, 2, 35])
         IGNITE_SHADER_TYPE_PIXEL (Some zeroed_info) =
       (IGNITE_RESULT_OK, Some (zeroed_info\<lparr>c_shaderType := IGNITE_SHADER_TYPE_PIXEL\<rparr>),
        [Log IGNITE_LOG_TYPE_ERROR
           ''SPIRV reflection failed: shader blob size is not aligned to 4 bytes.''])"
  using spirv_misaligned_blob_rejected
          [of "[3, 2, 35]" sample_spvc IGNITE_SHADER_TYPE_PIXEL sample_heap zeroed_info]
  by (simp add: SPIRVReflect_misaligned)

text \<open>
  Claim C9, as the code has it. In a build without \<open>_WIN32\<close>, \<open>DXILReflect\<close> makes no
  reflection attempt: its whole trace is the warning "DXIL reflection is only available
  on Windows platform" and it returns the empty reflection. The C entry point, called with
  a non-empty blob and a non-null output, then returns \<open>IGNITE_RESULT_OK\<close> with the zeroed
  struct (stage filled in); it does not return \<open>IGNITE_RESULT_UNSUPPORTED_PLATFORM\<close>.
\<close>

theorem dxil_non_windows_no_attempt:
  assumes "bytes \<noteq> []"
  shows "DXILReflect False B type bytes =
           (initial_info type,
            [Log IGNITE_LOG_TYPE_WARNING
               ''DXIL reflection is only available on Windows platform''])
       \<and> IgniteCompiler_ReflectDXIL False H B (Some bytes) type (Some out) =
           (IGNITE_RESULT_OK, Some (zeroed_info\<lparr>c_shaderType := type\<rparr>),
            [Log IGNITE_LOG_TYPE_WARNING
               ''DXIL reflection is only available on Windows platform''])"
  using assms
  by (simp add: DXILReflect_not_win32 IgniteCompiler_ReflectDXIL_def FillCReflectionInfo_initial)

theorem dxil_non_windows_no_attempt_witness:
  "sample_code \<noteq> []
   \<and> DXILReflect False sample_d3d IGNITE_SHADER_TYPE_VERTEX sample_code =
       (initial_info IGNITE_SHADER_TYPE_VERTEX,
        [Log IGNITE_LOG_TYPE_WARNING ''DXIL reflection is only available on Windows platform''])
   \<and> IgniteCompiler_ReflectDXIL False sample_heap sample_d3d (Some sample_code)
         IGNITE_SHADER_TYPE_VERTEX (Some zeroed_info) =
       (IGNITE_RESULT_OK, Some (zeroed_info\<lparr>c_shaderType := IGNITE_SHADER_TYPE_VERTEX\<rparr>),
        [Log IGNITE_LOG_TYPE_WARNING ''DXIL reflection is only available on Windows platform''])"
  using dxil_non_windows_no_attempt
          [of sample_code sample_d3d IGNITE_SHADER_TYPE_VERTEX sample_heap zeroed_info]
  by (simp add: sample_code_def)

text \<open>
  Claim C9 in its original wording does not hold: on a build without \<open>_WIN32\<close> the
  entry point answers a DXIL reflection request with \<open>IGNITE_RESULT_OK\<close>, not with the
  unsupported-platform code.
\<close>

theorem dxil_non_windows_returns_ok:
  "fst (IgniteCompiler_ReflectDXIL False sample_heap sample_d3d (Some sample_code)
          IGNITE_SHADER_TYPE_VERTEX (Some zeroed_info)) = IGNITE_RESULT_OK
   \<and> fst (IgniteCompiler_ReflectDXIL False sample_heap sample_d3d (Some sample_code)
          IGNITE_SHADER_TYPE_VERTEX (Some zeroed_info)) \<noteq> IGNITE_RESULT_UNSUPPORTED_PLATFORM"
  by (simp add: IgniteCompiler_ReflectDXIL_def sample_code_def DXILReflect_not_win32
      FillCReflectionInfo_initial)

section \<open>Both reflection paths, case by case\<close>

lemma SPIRVReflect_cases:
  assumes "P (initial_info type)" and "P (fst (SPIRV_collect B (initial_info type)))"
  shows "P (fst (SPIRVReflect B type shaderCode))"
  using assms by (simp add: SPIRVReflect_def Let_def case_prod_beta)

lemma DXILReflect_cases:
  assumes "P (initial_info type)" and "\<And>R d. P (fst (DXIL_collect R d (initial_info type)))"
  shows "P (fst (DXILReflect win32 B type shaderCode))"
  using assms
  by (simp add: DXILReflect_def Let_def case_prod_beta split: option.splits sum.splits)

lemma push_bound_resource_keeps:
  "storageImages (push_bound_resource t r info) = storageImages info"
  "separateImages (push_bound_resource t r info) = separateImages info"
  "pushConstants (push_bound_resource t r info) = pushConstants info"
  "stageInputs (push_bound_resource t r info) = stageInputs info"
  "stageOutputs (push_bound_resource t r info) = stageOutputs info"
  "vertexAttributes (push_bound_resource t r info) = vertexAttributes info"
  "shaderType (push_bound_resource t r info) = shaderType info"
  by (cases t; simp)+

lemma bound_resource_step_keeps:
  "storageImages (bound_resource_step R info i) = storageImages info"
  "separateImages (bound_resource_step R info i) = separateImages info"
  "pushConstants (bound_resource_step R info i) = pushConstants info"
  "stageInputs (bound_resource_step R info i) = stageInputs info"
  "stageOutputs (bound_resource_step R info i) = stageOutputs info"
  "vertexAttributes (bound_resource_step R info i) = vertexAttributes info"
  "shaderType (bound_resource_step R info i) = shaderType info"
  by (simp_all add: bound_resource_step_def push_bound_resource_keeps split: option.splits)

lemma foldl_bound_resource_step_keeps:
  "storageImages (foldl (bound_resource_step R) info is) = storageImages info"
  "separateImages (foldl (bound_resource_step R) info is) = separateImages info"
  "pushConstants (foldl (bound_resource_step R) info is) = pushConstants info"
  "stageInputs (foldl (bound_resource_step R) info is) = stageInputs info"
  "stageOutputs (foldl (bound_resource_step R) info is) = stageOutputs info"
  "vertexAttributes (foldl (bound_resource_step R) info is) = vertexAttributes info"
  "shaderType (foldl (bound_resource_step R) info is) = shaderType info"
  by (induction "is" arbitrary: info; simp add: bound_resource_step_keeps)+

lemma SPIRV_collect_stageIO:
  "stageInputs (fst (SPIRV_collect B info0)) =
     collectStageIO B SPVC_RESOURCE_TYPE_STAGE_INPUT (stageInputs info0)"
  "stageOutputs (fst (SPIRV_collect B info0)) =
     collectStageIO B SPVC_RESOURCE_TYPE_STAGE_OUTPUT (stageOutputs info0)"
  by (simp_all add: SPIRV_collect_def Let_def split: prod.splits)

lemma DXIL_collect_stageIO:
  "stageInputs (fst (DXIL_collect R d info0)) =
     std_sort io_location (stageInputs info0 @
        map (\<lambda>(i, paramDesc). signature_entry i paramDesc)
          (List.map_filter (\<lambda>i. map_option (Pair i) (GetInputParameterDesc R i))
                         (indices (InputParameters d))))"
  "stageOutputs (fst (DXIL_collect R d info0)) =
     std_sort io_location (stageOutputs info0 @
        map (\<lambda>(i, paramDesc). signature_entry i paramDesc)
          (List.map_filter (\<lambda>i. map_option (Pair i) (GetOutputParameterDesc R i))
                         (indices (OutputParameters d))))"
  by (simp_all add: DXIL_collect_def Let_def foldl_bound_resource_step_keeps split: prod.splits)

text \<open>The two sample reflections, evaluated.\<close>

lemma sample_spirv_stageInputs:
  "map io_location
     (stageInputs (fst (SPIRVReflect sample_spvc IGNITE_SHADER_TYPE_VERTEX sample_code)))
     = [0, 1, 2]"
  by code_simp

lemma sample_dxil_stageInputs:
  "map io_location
     (stageInputs (fst (DXILReflect True sample_d3d IGNITE_SHADER_TYPE_VERTEX sample_code)))
     = [0, 1]"
  by code_simp

lemma sample_spirv_vertexAttributes:
  "vertexAttributes (fst (SPIRVReflect sample_spvc IGNITE_SHADER_TYPE_VERTEX sample_code)) =
     [\<lparr>attr_name = ''position'', attr_format = IGNITE_VERTEX_ELEMENT_FORMAT_FLOAT2,
       attr_bufferIndex = 0, attr_offset = 0, attr_elementStride = 16\<rparr>,
      \<lparr>attr_name = ''uv'', attr_format = IGNITE_VERTEX_ELEMENT_FORMAT_FLOAT2,
       attr_bufferIndex = 0, attr_offset = 8, attr_elementStride = 16\<rparr>]"
  by code_simp

lemma sample_spirv_warnings:
  "filter is_warning (snd (SPIRVReflect sample_spvc IGNITE_SHADER_TYPE_VERTEX sample_code)) =
     [Log IGNITE_LOG_TYPE_WARNING
        ''SPIRV reflection: unsupported vertex attribute format at location 2'']"
  by code_simp

lemma sample_dxil_vertexAttributes:
  "vertexAttributes (fst (DXILReflect True sample_d3d IGNITE_SHADER_TYPE_VERTEX sample_code)) =
     [\<lparr>attr_name = ''POSITION'', attr_format = IGNITE_VERTEX_ELEMENT_FORMAT_FLOAT2,
       attr_bufferIndex = 0, attr_offset = 0, attr_elementStride = 20\<rparr>,
      \<lparr>attr_name = ''TEXCOORD'', attr_format = IGNITE_VERTEX_ELEMENT_FORMAT_FLOAT2,
       attr_bufferIndex = 0, attr_offset = 12, attr_elementStride = 20\<rparr>]"
  by code_simp

lemma sample_dxil_storageBuffers:
  "map res_name
     (storageBuffers (fst (DXILReflect True sample_d3d IGNITE_SHADER_TYPE_VERTEX sample_code)))
     = [''particles'']"
  by code_simp

section \<open>Order of the stage interface lists\<close>

lemma sorted_std_sort: "sorted (map key (std_sort key xs))"
  by (simp add: std_sort_def)

lemma sorted_collectStageIO:
  "sorted (map io_location outIO) \<Longrightarrow> sorted (map io_location (collectStageIO B t outIO))"
  by (simp add: collectStageIO_def sorted_std_sort split: option.splits)

text \<open>
  Claim C2. Whatever the backend reports and in whatever order, the stage-input list and
  the stage-output list returned by \<open>SPIRVReflect\<close> and by \<open>DXILReflect\<close> are sorted
  ascending by \<open>location\<close> (the SPIR-V location decoration, respectively the Direct3D
  register index). This covers every return path, the early ones with empty lists
  included.
\<close>

theorem stage_io_sorted:
  "sorted (map io_location (stageInputs (fst (SPIRVReflect B type shaderCode))))
   \<and> sorted (map io_location (stageOutputs (fst (SPIRVReflect B type shaderCode))))
   \<and> sorted (map io_location (stageInputs (fst (DXILReflect win32 D type shaderCode))))
   \<and> sorted (map io_location (stageOutputs (fst (DXILReflect win32 D type shaderCode))))"
proof -
  let ?ok = "\<lambda>info. sorted (map io_location (stageInputs info))
                   \<and> sorted (map io_location (stageOutputs info))"
  have s: "?ok (fst (SPIRVReflect B type shaderCode))"
    by (rule SPIRVReflect_cases)
       (simp_all add: initial_info_simps SPIRV_collect_stageIO sorted_collectStageIO)
  have d: "?ok (fst (DXILReflect win32 D type shaderCode))"
    by (rule DXILReflect_cases)
       (simp_all add: initial_info_simps DXIL_collect_stageIO sorted_std_sort)
  from s d show ?thesis by simp
qed

theorem stage_io_sorted_witness:
  "sorted (map io_location
     (stageInputs (fst (SPIRVReflect sample_spvc IGNITE_SHADER_TYPE_VERTEX sample_code))))
   \<and> map io_location
       (stageInputs (fst (SPIRVReflect sample_spvc IGNITE_SHADER_TYPE_VERTEX sample_code)))
       = [0, 1, 2]
   \<and> sorted (map io_location
       (stageInputs (fst (DXILReflect True sample_d3d IGNITE_SHADER_TYPE_VERTEX sample_code))))
   \<and> map io_location
       (stageInputs (fst (DXILReflect True sample_d3d IGNITE_SHADER_TYPE_VERTEX sample_code)))
       = [0, 1]"
  using stage_io_sorted
          [of sample_spvc IGNITE_SHADER_TYPE_VERTEX sample_code True sample_d3d]
  by (simp add: sample_spirv_stageInputs sample_dxil_stageInputs)

section \<open>Resource categories the DXIL path leaves empty\<close>

lemma DXIL_collect_untouched:
  assumes "storageImages info0 = []" "separateImages info0 = []" "pushConstants info0 = []"
  shows "storageImages (fst (DXIL_collect R d info0)) = []"
    "separateImages (fst (DXIL_collect R d info0)) = []"
    "pushConstants (fst (DXIL_collect R d info0)) = []"
    "numStorageTextures (fst (DXIL_collect R d info0)) = 0"
    "numSeparateImages (fst (DXIL_collect R d info0)) = 0"
    "numPushConstants (fst (DXIL_collect R d info0)) = 0"
  using assms
  by (simp_all add: DXIL_collect_def Let_def foldl_bound_resource_step_keeps split: prod.splits)

text \<open>
  Claim C10. On every input and on either kind of host, the reflection that \<open>DXILReflect\<close>
  returns has empty storage-image, separate-image and push-constant lists, and the three
  matching counters \<open>numStorageTextures\<close>, \<open>numSeparateImages\<close> and \<open>numPushConstants\<close>
  are 0.
\<close>

theorem dxil_untouched_categories:
  "storageImages (fst (DXILReflect win32 D type shaderCode)) = []
   \<and> separateImages (fst (DXILReflect win32 D type shaderCode)) = []
   \<and> pushConstants (fst (DXILReflect win32 D type shaderCode)) = []
   \<and> numStorageTextures (fst (DXILReflect win32 D type shaderCode)) = 0
   \<and> numSeparateImages (fst (DXILReflect win32 D type shaderCode)) = 0
   \<and> numPushConstants (fst (DXILReflect win32 D type shaderCode)) = 0"
  by (rule DXILReflect_cases) (simp_all add: initial_info_simps DXIL_collect_untouched)

theorem dxil_untouched_categories_witness:
  "storageImages (fst (DXILReflect True sample_d3d IGNITE_SHADER_TYPE_VERTEX sample_code)) = []
   \<and> separateImages (fst (DXILReflect True sample_d3d IGNITE_SHADER_TYPE_VERTEX sample_code)) = []
   \<and> pushConstants (fst (DXILReflect True sample_d3d IGNITE_SHADER_TYPE_VERTEX sample_code)) = []
   \<and> map res_name
       (storageBuffers (fst (DXILReflect True sample_d3d IGNITE_SHADER_TYPE_VERTEX sample_code)))
       = [''particles'']"
  using dxil_untouched_categories [of True sample_d3d IGNITE_SHADER_TYPE_VERTEX sample_code]
  by (simp add: sample_dxil_storageBuffers)

section \<open>The vertex layout\<close>

lemma SPIRV_vertex_loop_skip:
  "io_format input = IGNITE_VERTEX_ELEMENT_FORMAT_INVALID \<Longrightarrow>
   fst (SPIRV_vertex_loop off (input # rest)) = fst (SPIRV_vertex_loop off rest)
   \<and> fst (snd (SPIRV_vertex_loop off (input # rest))) = fst (snd (SPIRV_vertex_loop off rest))
   \<and> snd (snd (SPIRV_vertex_loop off (input # rest))) =
       Log IGNITE_LOG_TYPE_WARNING
         (''SPIRV reflection: unsupported vertex attribute format at location ''
            @ to_string (unat (io_location input)))
       # snd (snd (SPIRV_vertex_loop off rest))"
  by (simp add: case_prod_beta)

lemma SPIRV_vertex_loop_emit:
  "io_format input \<noteq> IGNITE_VERTEX_ELEMENT_FORMAT_INVALID \<Longrightarrow>
   fst (SPIRV_vertex_loop off (input # rest)) =
     \<lparr>attr_name = io_name input, attr_format = io_format input, attr_bufferIndex = 0,
      attr_offset = off, attr_elementStride = 0\<rparr>
     # fst (SPIRV_vertex_loop (off + attribute_size input) rest)
   \<and> fst (snd (SPIRV_vertex_loop off (input # rest))) =
       fst (snd (SPIRV_vertex_loop (off + attribute_size input) rest))
   \<and> snd (snd (SPIRV_vertex_loop off (input # rest))) =
       snd (snd (SPIRV_vertex_loop (off + attribute_size input) rest))"
  by (simp add: case_prod_beta Let_def attribute_size_def)

lemma emitted_Cons:
  "emitted (input # rest) =
     (if io_format input = IGNITE_VERTEX_ELEMENT_FORMAT_INVALID then emitted rest
      else input # emitted rest)"
  by (simp add: emitted_def)

lemma SPIRV_vertex_loop_fields:
  "map attr_name (fst (SPIRV_vertex_loop off ins)) = map io_name (emitted ins)
   \<and> map attr_format (fst (SPIRV_vertex_loop off ins)) = map io_format (emitted ins)
   \<and> map attr_bufferIndex (fst (SPIRV_vertex_loop off ins)) = replicate (length (emitted ins)) 0"
proof (induction ins arbitrary: off)
  case Nil
  then show ?case by (simp add: emitted_def)
next
  case (Cons input rest)
  then show ?case
    by (cases "io_format input = IGNITE_VERTEX_ELEMENT_FORMAT_INVALID")
       (simp_all add: SPIRV_vertex_loop_skip SPIRV_vertex_loop_emit emitted_Cons
          del: SPIRV_vertex_loop.simps)
qed

lemma SPIRV_vertex_loop_final:
  "fst (snd (SPIRV_vertex_loop off ins)) = off + sum_list (map attribute_size (emitted ins))"
proof (induction ins arbitrary: off)
  case Nil
  then show ?case by (simp add: emitted_def)
next
  case (Cons input rest)
  then show ?case
    by (cases "io_format input = IGNITE_VERTEX_ELEMENT_FORMAT_INVALID")
       (simp_all add: SPIRV_vertex_loop_skip SPIRV_vertex_loop_emit emitted_Cons add.assoc
          del: SPIRV_vertex_loop.simps)
qed

lemma SPIRV_vertex_loop_offsets:
  "map attr_offset (fst (SPIRV_vertex_loop off ins)) =
     map (\<lambda>k. off + sum_list (take k (map attribute_size (emitted ins))))
         [0..<length (emitted ins)]"
proof (induction ins arbitrary: off)
  case Nil
  then show ?case by (simp add: emitted_def)
next
  case (Cons input rest)
  show ?case
  proof (cases "io_format input = IGNITE_VERTEX_ELEMENT_FORMAT_INVALID")
    case True
    then show ?thesis using Cons.IH [of off]
      by (simp add: SPIRV_vertex_loop_skip emitted_Cons del: SPIRV_vertex_loop.simps)
  next
    case False
    then have e: "emitted (input # rest) = input # emitted rest" by (simp add: emitted_Cons)
    have "map attr_offset (fst (SPIRV_vertex_loop off (input # rest)))
          = off # map attr_offset (fst (SPIRV_vertex_loop (off + attribute_size input) rest))"
      using False by (simp add: SPIRV_vertex_loop_emit del: SPIRV_vertex_loop.simps)
    also have "\<dots> = off # map (\<lambda>k. off + attribute_size input
                          + sum_list (take k (map attribute_size (emitted rest))))
                        [0..<length (emitted rest)]"
      by (simp add: Cons.IH)
    also have "\<dots> = map (\<lambda>k. off + sum_list (take k (map attribute_size (emitted (input # rest)))))
                        [0..<length (emitted (input # rest))]"
      by (simp add: e map_upt_Suc add.assoc del: upt_Suc)
    finally show ?thesis .
  qed
qed

lemma SPIRV_vertex_loop_warnings:
  "snd (snd (SPIRV_vertex_loop off ins)) =
     map (\<lambda>i. Log IGNITE_LOG_TYPE_WARNING
                (''SPIRV reflection: unsupported vertex attribute format at location ''
                   @ to_string (unat (io_location i))))
         (skipped ins)"
proof (induction ins arbitrary: off)
  case Nil
  then show ?case by (simp add: skipped_def)
next
  case (Cons input rest)
  then show ?case
    by (cases "io_format input = IGNITE_VERTEX_ELEMENT_FORMAT_INVALID")
       (simp_all add: SPIRV_vertex_loop_skip SPIRV_vertex_loop_emit skipped_def
          del: SPIRV_vertex_loop.simps)
qed

lemma set_stride_maps:
  "map attr_name (set_stride s as) = map attr_name as"
  "map attr_format (set_stride s as) = map attr_format as"
  "map attr_bufferIndex (set_stride s as) = map attr_bufferIndex as"
  "map attr_offset (set_stride s as) = map attr_offset as"
  "map attr_elementStride (set_stride s as) = replicate (length as) s"
  by (induction as) (simp_all add: set_stride_def)

lemma length_SPIRV_vertex_loop:
  "length (fst (SPIRV_vertex_loop off ins)) = length (emitted ins)"
  using SPIRV_vertex_loop_fields [of off ins] by (metis length_map)

lemma interleaved_layout_loop:
  "interleaved_layout ins
     (set_stride (fst (snd (SPIRV_vertex_loop 0 ins))) (fst (SPIRV_vertex_loop 0 ins)))"
  by (simp add: interleaved_layout_def Let_def set_stride_maps SPIRV_vertex_loop_fields
      SPIRV_vertex_loop_offsets SPIRV_vertex_loop_final length_SPIRV_vertex_loop)

lemma interleaved_layout_Nil: "interleaved_layout [] []"
  by (simp add: interleaved_layout_def emitted_def)

lemma filter_is_warning_map:
  "filter is_warning (map (\<lambda>i. Log IGNITE_LOG_TYPE_WARNING (f i)) xs)
     = map (\<lambda>i. Log IGNITE_LOG_TYPE_WARNING (f i)) xs"
  by (induction xs) simp_all

subsection \<open>SPIR-V path\<close>

lemma SPIRV_collect_vertexAttributes:
  "vertexAttributes (fst (SPIRV_collect B info0)) =
     (if shaderType info0 = IGNITE_SHADER_TYPE_VERTEX then
        set_stride
          (fst (snd (SPIRV_vertex_loop 0
             (collectStageIO B SPVC_RESOURCE_TYPE_STAGE_INPUT (stageInputs info0)))))
          (vertexAttributes info0
             @ fst (SPIRV_vertex_loop 0
                 (collectStageIO B SPVC_RESOURCE_TYPE_STAGE_INPUT (stageInputs info0))))
      else vertexAttributes info0)"
  by (simp add: SPIRV_collect_def Let_def case_prod_beta)

lemma SPIRV_collect_warnings:
  "filter is_warning (snd (SPIRV_collect B info0)) =
     (if shaderType info0 = IGNITE_SHADER_TYPE_VERTEX then
        filter is_warning
          (snd (snd (SPIRV_vertex_loop 0
             (collectStageIO B SPVC_RESOURCE_TYPE_STAGE_INPUT (stageInputs info0)))))
      else [])"
  by (simp add: SPIRV_collect_def Let_def case_prod_beta)

lemma SPIRVReflect_layout:
  "interleaved_layout (stageInputs (fst (SPIRVReflect B IGNITE_SHADER_TYPE_VERTEX shaderCode)))
     (vertexAttributes (fst (SPIRVReflect B IGNITE_SHADER_TYPE_VERTEX shaderCode)))"
  by (rule SPIRVReflect_cases)
     (simp_all add: initial_info_simps interleaved_layout_Nil SPIRV_collect_stageIO
        SPIRV_collect_vertexAttributes interleaved_layout_loop)

lemma SPIRVReflect_warnings:
  "filter is_warning (snd (SPIRVReflect B IGNITE_SHADER_TYPE_VERTEX shaderCode)) =
     map (\<lambda>i. Log IGNITE_LOG_TYPE_WARNING
                (''SPIRV reflection: unsupported vertex attribute format at location ''
                   @ to_string (unat (io_location i))))
         (skipped (stageInputs (fst (SPIRVReflect B IGNITE_SHADER_TYPE_VERTEX shaderCode))))"
  by (simp add: SPIRVReflect_def Let_def case_prod_beta initial_info_simps skipped_def
      SPIRV_collect_stageIO SPIRV_collect_warnings SPIRV_vertex_loop_warnings [unfolded skipped_def]
      filter_is_warning_map)

subsection \<open>DXIL path\<close>

text \<open>
  The DXIL path lays out its own sorted vector \<open>inputs\<close>, built from the same signature
  parameters as the stage-input list and sorted by the same key. Sorting commutes with
  the two element-wise constructions, so the two sorted vectors correspond entry by entry
  and the DXIL loop computes what the SPIR-V loop computes on the stage-input list.
\<close>

lemma insort_key_map:
  "insort_key k (f x) (map f xs) = map f (insort_key (\<lambda>y. k (f y)) x xs)"
  by (induction xs) simp_all

lemma sort_key_map: "sort_key k (map f xs) = map f (sort_key (\<lambda>y. k (f y)) xs)"
  by (induction xs) (simp_all add: insort_key_map)

lemma countMask_pos: "0 < countMask m"
  by (simp add: countMask_def Let_def)

lemma signature_entry_fields:
  "io_format (signature_entry i d) =
     IGNITE_Map3DComponent (ComponentType d) (countMask (ucast (Mask d)))"
  "io_name (signature_entry i d) = semantic_name (c_str_or_empty (SemanticName d)) (SemanticIndex d)"
  "io_location (signature_entry i d) = Register d"
  "attribute_size (signature_entry i d) = 4 * countMask (ucast (Mask d))"
  by (simp_all add: signature_entry_def Let_def attribute_size_def countMask_pos)

lemma input_attribute_fields:
  "registerIndex (input_attribute d) = Register d"
  "semanticName (input_attribute d) = c_str_or_empty (SemanticName d)"
  "semanticIndex (input_attribute d) = SemanticIndex d"
  "input_mask (input_attribute d) = ucast (Mask d)"
  "componentType (input_attribute d) = ComponentType d"
  by (simp_all add: input_attribute_def)

lemma DXIL_vertex_loop_as_SPIRV:
  "fst (DXIL_vertex_loop off (map (\<lambda>(i, d). input_attribute d) ps))
     = fst (SPIRV_vertex_loop off (map (\<lambda>(i, d). signature_entry i d) ps))
   \<and> fst (snd (DXIL_vertex_loop off (map (\<lambda>(i, d). input_attribute d) ps)))
     = fst (snd (SPIRV_vertex_loop off (map (\<lambda>(i, d). signature_entry i d) ps)))
   \<and> filter is_warning (snd (snd (DXIL_vertex_loop off (map (\<lambda>(i, d). input_attribute d) ps))))
     = snd (snd (DXIL_vertex_loop off (map (\<lambda>(i, d). input_attribute d) ps)))
   \<and> length (snd (snd (DXIL_vertex_loop off (map (\<lambda>(i, d). input_attribute d) ps))))
     = length (skipped (map (\<lambda>(i, d). signature_entry i d) ps))"
proof (induction ps arbitrary: off)
  case Nil
  then show ?case by (simp add: skipped_def)
next
  case (Cons p ps)
  obtain i d where p: "p = (i, d)" by (cases p)
  show ?case
  proof (cases "IGNITE_Map3DComponent (ComponentType d) (countMask (ucast (Mask d)))
                  = IGNITE_VERTEX_ELEMENT_FORMAT_INVALID")
    case True
    then show ?thesis using Cons.IH [of off]
      by (simp add: p SPIRV_vertex_loop_skip signature_entry_fields input_attribute_fields
            case_prod_beta Let_def skipped_def del: SPIRV_vertex_loop.simps)
  next
    case False
    then show ?thesis using Cons.IH [of "off + 4 * countMask (ucast (Mask d))"]
      by (simp add: p SPIRV_vertex_loop_emit signature_entry_fields input_attribute_fields
            case_prod_beta Let_def skipped_def del: SPIRV_vertex_loop.simps)
  qed
qed

lemma DXIL_sorted_inputs:
  "std_sort registerIndex (map (\<lambda>(i, d). input_attribute d) ps)
     = map (\<lambda>(i, d). input_attribute d) (sort_key (\<lambda>p. Register (snd p)) ps)"
  "std_sort io_location (map (\<lambda>(i, d). signature_entry i d) ps)
     = map (\<lambda>(i, d). signature_entry i d) (sort_key (\<lambda>p. Register (snd p)) ps)"
  by (simp_all add: std_sort_def sort_key_map case_prod_beta signature_entry_fields
        input_attribute_fields)

lemma DXIL_collect_vertexAttributes:
  "vertexAttributes (fst (DXIL_collect R d info0)) =
     (let ps = List.map_filter (\<lambda>i. map_option (Pair i) (GetInputParameterDesc R i))
                 (indices (InputParameters d));
          loop = DXIL_vertex_loop 0 (std_sort registerIndex (map (\<lambda>(i, d). input_attribute d) ps))
      in if shaderType info0 = IGNITE_SHADER_TYPE_VERTEX \<and> ps \<noteq> []
         then set_stride (fst (snd loop)) (vertexAttributes info0 @ fst loop)
         else vertexAttributes info0)"
  by (simp add: DXIL_collect_def Let_def case_prod_beta foldl_bound_resource_step_keeps)

lemma DXIL_collect_warnings:
  "filter is_warning (snd (DXIL_collect R d info0)) =
     (let ps = List.map_filter (\<lambda>i. map_option (Pair i) (GetInputParameterDesc R i))
                 (indices (InputParameters d));
          loop = DXIL_vertex_loop 0 (std_sort registerIndex (map (\<lambda>(i, d). input_attribute d) ps))
      in if shaderType info0 = IGNITE_SHADER_TYPE_VERTEX \<and> ps \<noteq> []
         then filter is_warning (snd (snd loop))
         else [])"
  by (simp add: DXIL_collect_def Let_def case_prod_beta foldl_bound_resource_step_keeps)

lemma DXIL_collect_layout:
  "interleaved_layout (stageInputs (fst (DXIL_collect R d (initial_info IGNITE_SHADER_TYPE_VERTEX))))
     (vertexAttributes (fst (DXIL_collect R d (initial_info IGNITE_SHADER_TYPE_VERTEX))))"
proof -
  let ?ps = "List.map_filter (\<lambda>i. map_option (Pair i) (GetInputParameterDesc R i))
               (indices (InputParameters d))"
  show ?thesis
  proof (cases "?ps = []")
    case True
    then show ?thesis
      by (simp add: DXIL_collect_stageIO DXIL_collect_vertexAttributes initial_info_simps
            std_sort_def interleaved_layout_Nil)
  next
    case False
    then show ?thesis
      by (simp add: DXIL_collect_stageIO DXIL_collect_vertexAttributes initial_info_simps
            Let_def DXIL_sorted_inputs DXIL_vertex_loop_as_SPIRV interleaved_layout_loop)
  qed
qed

lemma DXIL_collect_warning_count:
  "length (filter is_warning (snd (DXIL_collect R d (initial_info IGNITE_SHADER_TYPE_VERTEX))))
     = length (skipped (stageInputs (fst (DXIL_collect R d (initial_info IGNITE_SHADER_TYPE_VERTEX)))))"
proof -
  let ?ps = "List.map_filter (\<lambda>i. map_option (Pair i) (GetInputParameterDesc R i))
               (indices (InputParameters d))"
  show ?thesis
  proof (cases "?ps = []")
    case True
    then show ?thesis
      by (simp add: DXIL_collect_stageIO DXIL_collect_warnings initial_info_simps
            std_sort_def skipped_def)
  next
    case False
    then show ?thesis
      by (simp add: DXIL_collect_stageIO DXIL_collect_warnings initial_info_simps
            Let_def DXIL_sorted_inputs DXIL_vertex_loop_as_SPIRV)
  qed
qed

lemma DXILReflect_layout:
  "interleaved_layout (stageInputs (fst (DXILReflect win32 D IGNITE_SHADER_TYPE_VERTEX shaderCode)))
     (vertexAttributes (fst (DXILReflect win32 D IGNITE_SHADER_TYPE_VERTEX shaderCode)))"
  by (rule DXILReflect_cases)
     (simp_all add: initial_info_simps interleaved_layout_Nil DXIL_collect_layout)

lemma DXILReflect_warning_count:
  "length (filter is_warning (snd (DXILReflect True D IGNITE_SHADER_TYPE_VERTEX shaderCode)))
     = length (skipped (stageInputs (fst (DXILReflect True D IGNITE_SHADER_TYPE_VERTEX shaderCode))))"
  by (simp add: DXILReflect_def Let_def case_prod_beta initial_info_simps skipped_def
        DXIL_collect_warning_count [unfolded skipped_def] split: option.splits sum.splits)

text \<open>
  Claim C3. For the vertex stage, on both paths, the vertex-attribute list is the
  interleaved layout of the returned (sorted) stage-input list: inputs whose format is
  the invalid sentinel are left out and the others follow in order, each at the next
  offset, which advances by 4 bytes times the vector width (at least 1); every stride
  equals the final offset, the sum of the sizes of all emitted attributes. One warning is
  logged per skipped input and reflection goes on: on the SPIR-V path the warnings are
  exactly the ones naming the skipped locations; on the DXIL path (Windows build) there
  are as many warnings as skipped inputs.
\<close>

theorem vertex_layout_shared_stride:
  assumes "type = IGNITE_SHADER_TYPE_VERTEX"
  shows "interleaved_layout (stageInputs (fst (SPIRVReflect B type shaderCode)))
           (vertexAttributes (fst (SPIRVReflect B type shaderCode)))
       \<and> filter is_warning (snd (SPIRVReflect B type shaderCode)) =
           map (\<lambda>i. Log IGNITE_LOG_TYPE_WARNING
                      (''SPIRV reflection: unsupported vertex attribute format at location ''
                         @ to_string (unat (io_location i))))
               (skipped (stageInputs (fst (SPIRVReflect B type shaderCode))))
       \<and> interleaved_layout (stageInputs (fst (DXILReflect win32 D type shaderCode)))
           (vertexAttributes (fst (DXILReflect win32 D type shaderCode)))
       \<and> length (filter is_warning (snd (DXILReflect True D type shaderCode))) =
           length (skipped (stageInputs (fst (DXILReflect True D type shaderCode))))"
  unfolding assms
  using SPIRVReflect_layout SPIRVReflect_warnings DXILReflect_layout DXILReflect_warning_count
  by blast

theorem vertex_layout_shared_stride_witness:
  "IGNITE_SHADER_TYPE_VERTEX = IGNITE_SHADER_TYPE_VERTEX
   \<and> interleaved_layout
       (stageInputs (fst (SPIRVReflect sample_spvc IGNITE_SHADER_TYPE_VERTEX sample_code)))
       (vertexAttributes (fst (SPIRVReflect sample_spvc IGNITE_SHADER_TYPE_VERTEX sample_code)))
   \<and> vertexAttributes (fst (SPIRVReflect sample_spvc IGNITE_SHADER_TYPE_VERTEX sample_code)) =
       [\<lparr>attr_name = ''position'', attr_format = IGNITE_VERTEX_ELEMENT_FORMAT_FLOAT2,
         attr_bufferIndex = 0, attr_offset = 0, attr_elementStride = 16\<rparr>,
        \<lparr>attr_name = ''uv'', attr_format = IGNITE_VERTEX_ELEMENT_FORMAT_FLOAT2,
         attr_bufferIndex = 0, attr_offset = 8, attr_elementStride = 16\<rparr>]
   \<and> filter is_warning (snd (SPIRVReflect sample_spvc IGNITE_SHADER_TYPE_VERTEX sample_code)) =
       [Log IGNITE_LOG_TYPE_WARNING
          ''SPIRV reflection: unsupported vertex attribute format at location 2'']
   \<and> interleaved_layout
       (stageInputs (fst (DXILReflect True sample_d3d IGNITE_SHADER_TYPE_VERTEX sample_code)))
       (vertexAttributes (fst (DXILReflect True sample_d3d IGNITE_SHADER_TYPE_VERTEX sample_code)))
   \<and> vertexAttributes (fst (DXILReflect True sample_d3d IGNITE_SHADER_TYPE_VERTEX sample_code)) =
       [\<lparr>attr_name = ''POSITION'', attr_format = IGNITE_VERTEX_ELEMENT_FORMAT_FLOAT2,
         attr_bufferIndex = 0, attr_offset = 0, attr_elementStride = 20\<rparr>,
        \<lparr>attr_name = ''TEXCOORD'', attr_format = IGNITE_VERTEX_ELEMENT_FORMAT_FLOAT2,
         attr_bufferIndex = 0, attr_offset = 12, attr_elementStride = 20\<rparr>]"
  using vertex_layout_shared_stride
          [of IGNITE_SHADER_TYPE_VERTEX sample_spvc sample_code True sample_d3d]
        sample_spirv_vertexAttributes sample_spirv_warnings sample_dxil_vertexAttributes
  by simp

section \<open>The argument list\<close>

lemma Tokenize_loop_out:
  "Tokenize_loop s current quotes escape out = out @ Tokenize_loop s current quotes escape []"
proof (induction s arbitrary: current quotes escape out)
  case Nil
  then show ?case by simp
next
  case (Cons ch rest)
  show ?case
    by (simp add: Cons.IH [of _ _ _ "out @ [current]"] Cons.IH [of _ _ _ "[current]"]
          Cons.IH [of _ _ _ out, symmetric])
qed

lemma TokenizeCompilerOptions_out:
  "TokenizeCompilerOptions inp out = out @ TokenizeCompilerOptions inp []"
  unfolding TokenizeCompilerOptions_def by (rule Tokenize_loop_out)

lemma foldl_Tokenize_out:
  "foldl (\<lambda>args opts. TokenizeCompilerOptions opts args) args xs
     = args @ foldl (\<lambda>args opts. TokenizeCompilerOptions opts args) [] xs"
proof (induction xs arbitrary: args)
  case Nil
  then show ?case by simp
next
  case (Cons x xs)
  let ?F = "foldl (\<lambda>args opts. TokenizeCompilerOptions opts args)"
  have "?F args (x # xs) = ?F (TokenizeCompilerOptions x args) xs" by simp
  also have "\<dots> = TokenizeCompilerOptions x args @ ?F [] xs" by (rule Cons.IH)
  also have "\<dots> = args @ TokenizeCompilerOptions x [] @ ?F [] xs"
    by (subst TokenizeCompilerOptions_out) simp
  also have "\<dots> = args @ ?F (TokenizeCompilerOptions x []) xs"
    by (simp only: Cons.IH [of "TokenizeCompilerOptions x []"])
  also have "\<dots> = args @ ?F [] (x # xs)" by simp
  finally show ?case .
qed

lemma length_concat_pairs: "length (concat (map (\<lambda>x. [a, f x]) xs)) = 2 * length xs"
  by (induction xs) simp_all

lemma CompileDXC_args_shape:
  assumes "CompileDXC_args options = Some args"
  shows "\<exists>index rest.
           shaderModelIndex (shaderModel (shaderDesc options)) = Some index
         \<and> args =
             [filepath options, ''-T'',
              AnsiToWide (IGNITE_ShaderTypeToProfile (desc_shaderType (shaderDesc options))
                            @ ''_'' @ shaderModel (shaderDesc options)),
              ''-E'', AnsiToWide (entryPoint (shaderDesc options))]
             @ concat (map (\<lambda>define. [''-D'', AnsiToWide define]) (optDefines options))
             @ concat (map (\<lambda>path. [''-I'', path]) (includeDirectories options))
             @ [dxcOptimizationLevelRemap (optLevel (shaderDesc options))]
             @ (if index \<ge> 62 then [''-enable-16bit-types''] else [])
             @ rest"
  using assms
  by (auto simp: CompileDXC_args_def Let_def foldl_Tokenize_out [of "_ # _"]
        split: option.splits)

text \<open>The argument lists of the sample descriptors, evaluated.\<close>

lemma shaderModelIndex_samples:
  "shaderModelIndex ''6_5'' = Some 65"
  "shaderModelIndex ''6.2'' = Some 62"
  "shaderModelIndex ''6.0'' = Some 60"
  by (simp_all add: shaderModelIndex_def string_at_def char_value_def)

lemma sample_dxil_args:
  "CompileDXC_args (sample_options IGNITE_SHADER_PLATFORM_TYPE_DXIL tier ''6_5'') =
     Some [''shader.hlsl'', ''-T'', ''vs_6_5'', ''-E'', ''main'',
           dxcOptimizationLevelRemap tier, ''-enable-16bit-types'']"
  "CompileDXC_args (sample_options IGNITE_SHADER_PLATFORM_TYPE_DXIL tier ''6.2'') =
     Some [''shader.hlsl'', ''-T'', ''vs_6.2'', ''-E'', ''main'',
           dxcOptimizationLevelRemap tier, ''-enable-16bit-types'']"
  "CompileDXC_args (sample_options IGNITE_SHADER_PLATFORM_TYPE_DXIL tier ''6.0'') =
     Some [''shader.hlsl'', ''-T'', ''vs_6.0'', ''-E'', ''main'',
           dxcOptimizationLevelRemap tier]"
  by (simp_all add: CompileDXC_args_def sample_options_def default_CompilerOptions_def
        shaderModelIndex_samples AnsiToWide_def word_le_nat_alt)

lemma sample_spirv_args:
  "CompileDXC_args (sample_options IGNITE_SHADER_PLATFORM_TYPE_SPIRV tier ''6_5'') =
     Some ([''shader.hlsl'', ''-T'', ''vs_6_5'', ''-E'', ''main'',
            dxcOptimizationLevelRemap tier, ''-enable-16bit-types'',
            ''-spirv'', ''-fspv-target-env=vulkan1.3'',
            ''-fspv-extension=SPV_EXT_descriptor_indexing'', ''-fspv-extension=KHR'']
           @ regShifts (sample_options IGNITE_SHADER_PLATFORM_TYPE_SPIRV tier ''6_5''))"
  by (simp add: CompileDXC_args_def sample_options_def default_CompilerOptions_def
        shaderModelIndex_samples AnsiToWide_def word_le_nat_alt)

lemma sample_options_fields:
  "platformType (sample_options platform tier model) = platform"
  "optDefines (sample_options platform tier model) = []"
  "includeDirectories (sample_options platform tier model) = []"
  by (simp_all add: sample_options_def default_CompilerOptions_def)

lemma sample_caller_strings:
  "caller_strings (sample_options platform tier model) = [''shader.hlsl'', ''main'']"
  by (simp add: caller_strings_def extra_tokens_def sample_options_def
        default_CompilerOptions_def AnsiToWide_def)

subsection \<open>Optimization tier\<close>

text \<open>
  Claim C7, as the code has it. The DXC argument list carries, right after the define
  and include arguments, the entry of a four-entry table for the requested tier: tier 0
  gives the skip-optimizations flag \<open>-Od\<close>, and tiers 1, 2 and 3 give three different
  flags \<open>-O1\<close>, \<open>-O2\<close>, \<open>-O3\<close>. The collapse of tiers 1 to 3 into one "performance"
  level exists only in \<open>IGNITE_ShaderToShaderCOptLevel\<close>, the mapping of the GLSL
  (shaderc) path, where tier 0 is the zero level.
\<close>

theorem optimization_flag_per_tier:
  assumes "CompileDXC_args options = Some args"
  shows "args ! (5 + 2 * length (optDefines options) + 2 * length (includeDirectories options))
           = dxcOptimizationLevelRemap (optLevel (shaderDesc options))
       \<and> map dxcOptimizationLevelRemap
            [IGNITE_OPT_LEVEL_0, IGNITE_OPT_LEVEL_1, IGNITE_OPT_LEVEL_2, IGNITE_OPT_LEVEL_3]
           = [''-Od'', ''-O1'', ''-O2'', ''-O3'']
       \<and> map IGNITE_ShaderToShaderCOptLevel
            [IGNITE_OPT_LEVEL_0, IGNITE_OPT_LEVEL_1, IGNITE_OPT_LEVEL_2, IGNITE_OPT_LEVEL_3]
           = [shaderc_optimization_level_zero, shaderc_optimization_level_performance,
              shaderc_optimization_level_performance, shaderc_optimization_level_performance]"
proof -
  from CompileDXC_args_shape [OF assms] obtain index :: u32 and rest where
    "args =
       [filepath options, ''-T'',
        AnsiToWide (IGNITE_ShaderTypeToProfile (desc_shaderType (shaderDesc options))
                      @ ''_'' @ shaderModel (shaderDesc options)),
        ''-E'', AnsiToWide (entryPoint (shaderDesc options))]
       @ concat (map (\<lambda>define. [''-D'', AnsiToWide define]) (optDefines options))
       @ concat (map (\<lambda>path. [''-I'', path]) (includeDirectories options))
       @ [dxcOptimizationLevelRemap (optLevel (shaderDesc options))]
       @ (if index \<ge> 62 then [''-enable-16bit-types''] else [])
       @ rest"
    by blast
  then have "args ! (5 + 2 * length (optDefines options) + 2 * length (includeDirectories options))
           = dxcOptimizationLevelRemap (optLevel (shaderDesc options))"
    by (simp add: nth_append length_concat_pairs)
  then show ?thesis
    by (simp add: DXC_ARG_SKIP_OPTIMIZATIONS_def DXC_ARG_OPTIMIZATION_LEVEL1_def
          DXC_ARG_OPTIMIZATION_LEVEL2_def DXC_ARG_OPTIMIZATION_LEVEL3_def)
qed

theorem optimization_flag_per_tier_witness:
  "CompileDXC_args (sample_options IGNITE_SHADER_PLATFORM_TYPE_DXIL IGNITE_OPT_LEVEL_2 ''6_5'') =
     Some [''shader.hlsl'', ''-T'', ''vs_6_5'', ''-E'', ''main'', ''-O2'', ''-enable-16bit-types'']
   \<and> [''shader.hlsl'', ''-T'', ''vs_6_5'', ''-E'', ''main'', ''-O2'', ''-enable-16bit-types'']
       ! (5 + 2 * length (optDefines
                (sample_options IGNITE_SHADER_PLATFORM_TYPE_DXIL IGNITE_OPT_LEVEL_2 ''6_5''))
            + 2 * length (includeDirectories
                (sample_options IGNITE_SHADER_PLATFORM_TYPE_DXIL IGNITE_OPT_LEVEL_2 ''6_5'')))
       = ''-O2''"
  using optimization_flag_per_tier
          [of "sample_options IGNITE_SHADER_PLATFORM_TYPE_DXIL IGNITE_OPT_LEVEL_2 ''6_5''"
              "[''shader.hlsl'', ''-T'', ''vs_6_5'', ''-E'', ''main'', ''-O2'',
                ''-enable-16bit-types'']"]
  by (simp add: sample_dxil_args DXC_ARG_OPTIMIZATION_LEVEL2_def sample_options_fields)

text \<open>
  Claim C7 in its original wording does not hold for the argument list: the same
  descriptor with tier 1 and with tier 2 yields two different argument lists, one with
  \<open>-O1\<close> and one with \<open>-O2\<close>.
\<close>

theorem dxc_tiers_not_collapsed:
  "CompileDXC_args (sample_options IGNITE_SHADER_PLATFORM_TYPE_DXIL IGNITE_OPT_LEVEL_1 ''6_5'') =
     Some [''shader.hlsl'', ''-T'', ''vs_6_5'', ''-E'', ''main'', ''-O1'', ''-enable-16bit-types'']
   \<and> CompileDXC_args (sample_options IGNITE_SHADER_PLATFORM_TYPE_DXIL IGNITE_OPT_LEVEL_2 ''6_5'') =
     Some [''shader.hlsl'', ''-T'', ''vs_6_5'', ''-E'', ''main'', ''-O2'', ''-enable-16bit-types'']
   \<and> CompileDXC_args (sample_options IGNITE_SHADER_PLATFORM_TYPE_DXIL IGNITE_OPT_LEVEL_1 ''6_5'')
       \<noteq> CompileDXC_args (sample_options IGNITE_SHADER_PLATFORM_TYPE_DXIL IGNITE_OPT_LEVEL_2 ''6_5'')"
  by (simp add: sample_dxil_args DXC_ARG_OPTIMIZATION_LEVEL1_def DXC_ARG_OPTIMIZATION_LEVEL2_def)

subsection \<open>Register shifts\<close>





lemma foldl_append_concat: "foldl (\<lambda>acc x. acc @ f x) acc xs = acc @ concat (map f xs)"
  by (induction xs arbitrary: acc) simp_all

lemma concat_product:
  "concat (map f (List.product rs ss)) = concat (map (\<lambda>r. concat (map (\<lambda>s. f (r, s)) ss)) rs)"
  by (induction rs) (simp_all add: comp_def)

lemma regShifts_code_pairs:
  "regShifts options =
     concat (map (\<lambda>p. [dxcRegShiftArgs ! fst p,
                        to_string (unat (regShift_member options (fst p))),
                        to_string (snd p)])
                 kind_space_pairs)"
proof -
  have inner: "\<And>acc reg. foldl (\<lambda>acc space.
                       acc @ [dxcRegShiftArgs ! reg,
                              to_string (unat (regShift_member options reg)),
                              to_string space])
                    acc [0..<SPIRV_SPACES_NUM]
        = acc @ concat (map (\<lambda>space. [dxcRegShiftArgs ! fst (reg, space),
                                        to_string (unat (regShift_member options (fst (reg, space)))),
                                        to_string (snd (reg, space))]) [0..<8])"
    by (simp only: foldl_append_concat SPIRV_SPACES_NUM_def fst_conv snd_conv)
  show ?thesis
    unfolding regShifts_def inner kind_space_pairs_def concat_product
    by (simp only: foldl_append_concat append_Nil)
qed


text \<open>
  The pointer arithmetic \<open>(&options.tRegShift)[reg]\<close> and the flag table reach, for each
  of the four kinds, the field and the flag of that kind.
\<close>

lemma code_triple_is_shift_argument:
  assumes "p \<in> set kind_space_pairs"
  shows "[dxcRegShiftArgs ! fst p, to_string (unat (regShift_member options (fst p))),
          to_string (snd p)] = shift_argument options p"
proof -
  from assms have "fst p < 4" by (auto simp: kind_space_pairs_def)
  then have "fst p = 0 \<or> fst p = 1 \<or> fst p = 2 \<or> fst p = 3" by arith
  then show ?thesis
    by (auto simp: shift_argument_def shift_flag_def configured_shift_def dxcRegShiftArgs_def
          regShift_member_def)
qed

lemma regShifts_pairs:
  "regShifts options = concat (map (shift_argument options) kind_space_pairs)"
proof -
  have "map (\<lambda>p. [dxcRegShiftArgs ! fst p,
                  to_string (unat (regShift_member options (fst p))),
                  to_string (snd p)]) kind_space_pairs
        = map (shift_argument options) kind_space_pairs"
    by (rule map_cong [OF refl]) (rule code_triple_is_shift_argument)
  then show ?thesis by (simp only: regShifts_code_pairs)
qed






subsection \<open>16-bit types\<close>

lemma digit_char_code: "d < 10 \<Longrightarrow> of_char (digit_char d) = 48 + d"
  by (simp add: digit_char_def)

lemma digit_char_not_minus: "d < 10 \<Longrightarrow> digit_char d \<noteq> CHR ''-''"
proof
  assume d: "d < 10" and eq: "digit_char d = CHR ''-''"
  have "(of_char (digit_char d) :: nat) = of_char (CHR ''-'')" by (simp only: eq)
  with d show False by (simp add: digit_char_code)
qed

lemma to_string_no_minus: "CHR ''-'' \<notin> set (to_string n)"
proof (induction n rule: to_string.induct)
  case (1 n)
  show ?case
  proof (cases "n < 10")
    case True
    then show ?thesis
      using digit_char_not_minus [of n] by (subst to_string.simps) auto
  next
    case False
    have "n mod 10 < 10" by simp
    then show ?thesis
      using False 1 digit_char_not_minus [of "n mod 10"] by (subst to_string.simps) auto
  qed
qed

lemma to_string_not_flag: "to_string n \<noteq> ''-enable-16bit-types''"
proof
  assume "to_string n = ''-enable-16bit-types''"
  then have "CHR ''-'' \<in> set (to_string n)" by simp
  then show False by (simp add: to_string_no_minus)
qed

lemma flag_not_in_regShifts: "''-enable-16bit-types'' \<notin> set (regShifts options)"
proof -
  have "\<And>p. ''-enable-16bit-types'' \<notin> set (shift_argument options p)"
    using to_string_not_flag [symmetric] by (simp add: shift_argument_def shift_flag_def)
  then show ?thesis by (auto simp: regShifts_pairs)
qed

lemma profile_not_flag:
  "AnsiToWide (IGNITE_ShaderTypeToProfile t @ rest) \<noteq> ''-enable-16bit-types''"
  by (cases t) (simp_all add: AnsiToWide_def)

lemma char_value_digit: "d < 10 \<Longrightarrow> char_value (digit_char d) = 48 + int d"
  by (simp add: char_value_def Let_def digit_char_code)

lemma shaderModelIndex_digits:
  assumes "major < 10" "minor < 10"
  shows "shaderModelIndex (digit_char major # sep # digit_char minor # rest)
           = Some (of_nat (10 * major + minor))"
proof -
  have z: "char_value (CHR ''0'') = 48" by (simp add: char_value_def)
  show ?thesis
    using assms
    by (simp add: shaderModelIndex_def string_at_def char_value_digit z)
qed

lemma index_threshold:
  assumes "major < 10" "minor < 10"
  shows "(62 \<le> (of_nat (10 * major + minor) :: u32)) = (62 \<le> 10 * major + minor)"
proof -
  have "10 * major + minor < 2 ^ 32" using assms by simp
  then have "unat (of_nat (10 * major + minor) :: u32) = 10 * major + minor"
    by (subst unat_of_nat) simp
  then show ?thesis by (simp add: word_le_nat_alt)
qed

lemma in_concat_pairs:
  "x \<noteq> a \<Longrightarrow> (x \<in> set (concat (map (\<lambda>d. [a, f d]) xs))) = (x \<in> f ` set xs)"
  by (induction xs) auto

text \<open>
  Claim C8, as the code has it. Let the shader-model string be one decimal digit, one
  separator character and one decimal digit (\<open>"6.2"\<close>, \<open>"6_5"\<close>: major M, minor m).
  Then \<open>CompileDXC\<close> builds an argument list, and \<open>-enable-16bit-types\<close> occurs in it
  exactly when \<open>10 * M + m \<ge> 62\<close>, that is when the version M.m is at least 6.2, or
  when the caller has supplied that string itself (as source path, entry point, define,
  include directory or free-form option). Only the first and the third character of the
  string are read, so nothing is said for versions with more than one digit in a part.
\<close>

theorem sixteen_bit_types_flag:
  assumes "shaderModel (shaderDesc options) = [digit_char major, sep, digit_char minor]"
    and "major < 10" and "minor < 10"
  shows "\<exists>args. CompileDXC_args options = Some args
             \<and> (''-enable-16bit-types'' \<in> set args)
                 = (62 \<le> 10 * major + minor
                    \<or> ''-enable-16bit-types'' \<in> set (caller_strings options))"
proof -
  let ?flag = "''-enable-16bit-types''"
  define idx :: u32 where "idx = of_nat (10 * major + minor)"
  define head where "head =
     [filepath options, ''-T'',
      AnsiToWide (IGNITE_ShaderTypeToProfile (desc_shaderType (shaderDesc options))
                    @ ''_'' @ shaderModel (shaderDesc options)),
      ''-E'', AnsiToWide (entryPoint (shaderDesc options))]
     @ concat (map (\<lambda>define. [''-D'', AnsiToWide define]) (optDefines options))
     @ concat (map (\<lambda>path. [''-I'', path]) (includeDirectories options))
     @ [dxcOptimizationLevelRemap (optLevel (shaderDesc options))]"
  define switches where "switches =
       (if warningsAreErrors options then [DXC_ARG_WARNINGS_ARE_ERRORS] else [])
     @ (if allResourcesBound options then [DXC_ARG_ALL_RESOURCES_BOUND] else [])
     @ (if matrixRowMajor options then [DXC_ARG_PACK_MATRIX_ROW_MAJOR] else [])
     @ (if hlsl2021 options then [''-HV'', ''2021''] else [])
     @ (if embedPdb options then [''-Qembed_debug''] else [])"
  define block where "block =
     (if platformType options = IGNITE_SHADER_PLATFORM_TYPE_SPIRV then
        [''-spirv'',
         ''-fspv-target-env=vulkan'' @ AnsiToWide (vulkanVersion (shaderDesc options))]
        @ (if vulkanMemoryLayout (shaderDesc options) \<noteq> [] then
             [''-fvk-use-'' @ AnsiToWide (vulkanMemoryLayout (shaderDesc options))
                @ ''-layout'']
           else [])
        @ map (\<lambda>ext. ''-fspv-extension='' @ AnsiToWide ext) (spirvExtensions options)
        @ regShifts options
      else if stripReflection options then [''-Qstrip_reflect''] else [])"
  define args where "args = head @ (if idx \<ge> 62 then [?flag] else []) @ switches @ block
                              @ extra_tokens options"
  have index: "shaderModelIndex (shaderModel (shaderDesc options)) = Some idx"
    using assms by (simp add: shaderModelIndex_digits idx_def)
  have built: "CompileDXC_args options = Some args"
    by (simp add: CompileDXC_args_def index Let_def foldl_Tokenize_out [of "_ # _"]
          extra_tokens_def head_def switches_def block_def args_def)
  have defs: "(?flag \<in> set (concat (map (\<lambda>define. [''-D'', AnsiToWide define]) (optDefines options))))
                = (?flag \<in> AnsiToWide ` set (optDefines options))"
    by (rule in_concat_pairs) simp
  have incs: "(?flag \<in> set (concat (map (\<lambda>path. [''-I'', path]) (includeDirectories options))))
                = (?flag \<in> (\<lambda>path. path) ` set (includeDirectories options))"
    by (rule in_concat_pairs) simp
  have opt: "dxcOptimizationLevelRemap (optLevel (shaderDesc options)) \<noteq> ?flag"
    by (cases "optLevel (shaderDesc options)")
       (simp_all add: DXC_ARG_SKIP_OPTIMIZATIONS_def DXC_ARG_OPTIMIZATION_LEVEL1_def
          DXC_ARG_OPTIMIZATION_LEVEL2_def DXC_ARG_OPTIMIZATION_LEVEL3_def)
  have prof: "AnsiToWide (IGNITE_ShaderTypeToProfile (desc_shaderType (shaderDesc options))
                @ ''_'' @ shaderModel (shaderDesc options)) \<noteq> ?flag"
    by (rule profile_not_flag)
  have h: "(?flag \<in> set head) =
             (?flag = filepath options \<or> ?flag = AnsiToWide (entryPoint (shaderDesc options))
              \<or> ?flag \<in> AnsiToWide ` set (optDefines options)
              \<or> ?flag \<in> set (includeDirectories options))"
    using opt [symmetric] prof [symmetric]
    unfolding head_def set_append defs incs Un_iff
    by (simp del: concat_eq_Nil_conv set_concat)
  have c: "(?flag \<in> set (caller_strings options)) =
             (?flag = filepath options \<or> ?flag = AnsiToWide (entryPoint (shaderDesc options))
              \<or> ?flag \<in> AnsiToWide ` set (optDefines options)
              \<or> ?flag \<in> set (includeDirectories options)
              \<or> ?flag \<in> set (extra_tokens options))"
    by (auto simp: caller_strings_def)
  have s: "?flag \<notin> set switches"
    by (simp add: switches_def DXC_ARG_WARNINGS_ARE_ERRORS_def DXC_ARG_ALL_RESOURCES_BOUND_def
          DXC_ARG_PACK_MATRIX_ROW_MAJOR_def)
  have b: "?flag \<notin> set block"
    using flag_not_in_regShifts [of options] by (auto simp: block_def)
  have "(?flag \<in> set args) = (62 \<le> idx \<or> ?flag \<in> set (caller_strings options))"
    unfolding args_def set_append Un_iff h c using s b by auto
  then have "(?flag \<in> set args)
               = (62 \<le> 10 * major + minor \<or> ?flag \<in> set (caller_strings options))"
    unfolding idx_def by (simp only: index_threshold [OF assms(2,3)])
  with built show ?thesis by blast
qed

lemma sample_model_digits:
  "''6.2'' = [digit_char 6, CHR ''.'', digit_char 2]"
  "''6.0'' = [digit_char 6, CHR ''.'', digit_char 0]"
  by (simp_all add: digit_char_def char_of_def bit_0)

theorem sixteen_bit_types_flag_witness:
  "shaderModel (shaderDesc (sample_options IGNITE_SHADER_PLATFORM_TYPE_DXIL IGNITE_OPT_LEVEL_3 ''6.2''))
     = [digit_char 6, CHR ''.'', digit_char 2]
   \<and> (6::nat) < 10 \<and> (2::nat) < 10
   \<and> (\<exists>args. CompileDXC_args
                (sample_options IGNITE_SHADER_PLATFORM_TYPE_DXIL IGNITE_OPT_LEVEL_3 ''6.2'') = Some args
           \<and> (''-enable-16bit-types'' \<in> set args)
               = (62 \<le> 10 * 6 + (2::nat)
                  \<or> ''-enable-16bit-types''
                      \<in> set (caller_strings
                           (sample_options IGNITE_SHADER_PLATFORM_TYPE_DXIL IGNITE_OPT_LEVEL_3 ''6.2''))))
   \<and> CompileDXC_args (sample_options IGNITE_SHADER_PLATFORM_TYPE_DXIL IGNITE_OPT_LEVEL_3 ''6.2'') =
       Some [''shader.hlsl'', ''-T'', ''vs_6.2'', ''-E'', ''main'', ''-O3'', ''-enable-16bit-types'']
   \<and> shaderModel (shaderDesc (sample_options IGNITE_SHADER_PLATFORM_TYPE_DXIL IGNITE_OPT_LEVEL_3 ''6.0''))
       = [digit_char 6, CHR ''.'', digit_char 0]
   \<and> (0::nat) < 10
   \<and> (\<exists>args. CompileDXC_args
                (sample_options IGNITE_SHADER_PLATFORM_TYPE_DXIL IGNITE_OPT_LEVEL_3 ''6.0'') = Some args
           \<and> (''-enable-16bit-types'' \<in> set args)
               = (62 \<le> 10 * 6 + (0::nat)
                  \<or> ''-enable-16bit-types''
                      \<in> set (caller_strings
                           (sample_options IGNITE_SHADER_PLATFORM_TYPE_DXIL IGNITE_OPT_LEVEL_3 ''6.0''))))
   \<and> CompileDXC_args (sample_options IGNITE_SHADER_PLATFORM_TYPE_DXIL IGNITE_OPT_LEVEL_3 ''6.0'') =
       Some [''shader.hlsl'', ''-T'', ''vs_6.0'', ''-E'', ''main'', ''-O3'']
   \<and> caller_strings (sample_options IGNITE_SHADER_PLATFORM_TYPE_DXIL IGNITE_OPT_LEVEL_3 ''6.0'')
       = [''shader.hlsl'', ''main'']"
proof -
  let ?with = "sample_options IGNITE_SHADER_PLATFORM_TYPE_DXIL IGNITE_OPT_LEVEL_3 ''6.2''"
  let ?without = "sample_options IGNITE_SHADER_PLATFORM_TYPE_DXIL IGNITE_OPT_LEVEL_3 ''6.0''"
  have a1: "CompileDXC_args ?with =
      Some [''shader.hlsl'', ''-T'', ''vs_6.2'', ''-E'', ''main'', ''-O3'', ''-enable-16bit-types'']"
    by (simp add: sample_dxil_args DXC_ARG_OPTIMIZATION_LEVEL3_def)
  have a3: "shaderModel (shaderDesc ?with) = [digit_char 6, CHR ''.'', digit_char 2]"
    by (simp add: sample_options_def sample_model_digits [symmetric])
  have b1: "CompileDXC_args ?without =
      Some [''shader.hlsl'', ''-T'', ''vs_6.0'', ''-E'', ''main'', ''-O3'']"
    by (simp add: sample_dxil_args DXC_ARG_OPTIMIZATION_LEVEL3_def)
  have b2: "caller_strings ?without = [''shader.hlsl'', ''main'']"
    by (rule sample_caller_strings)
  have b3: "shaderModel (shaderDesc ?without) = [digit_char 6, CHR ''.'', digit_char 0]"
    by (simp add: sample_options_def sample_model_digits [symmetric])
  have six: "(6::nat) < 10" and two: "(2::nat) < 10" and zero: "(0::nat) < 10" by simp_all
  note t1 = sixteen_bit_types_flag [OF a3 six two]
  note t2 = sixteen_bit_types_flag [OF b3 six zero]
  show ?thesis
    by (intro conjI) (rule a1 a3 b1 b2 b3 six two zero t1 t2)+
qed

text \<open>
  Claim C8 in its original wording does not hold. Shader model \<open>"10_0"\<close> is above 6.2,
  yet its argument list has no \<open>-enable-16bit-types\<close>: the first and third characters
  give the index 57. And shader model \<open>"6.0"\<close> has the flag in its list when the caller
  passes it as a free-form option.
\<close>

theorem two_digit_version_gets_no_flag:
  "shaderModelIndex ''10_0'' = Some 57
   \<and> CompileDXC_args (sample_options IGNITE_SHADER_PLATFORM_TYPE_DXIL IGNITE_OPT_LEVEL_3 ''10_0'') =
       Some [''shader.hlsl'', ''-T'', ''vs_10_0'', ''-E'', ''main'', ''-O3'']
   \<and> ''-enable-16bit-types''
       \<notin> set [''shader.hlsl'', ''-T'', ''vs_10_0'', ''-E'', ''main'', ''-O3'']
   \<and> CompileDXC_args flag_passing_options =
       Some [''shader.hlsl'', ''-T'', ''vs_6.0'', ''-E'', ''main'', ''-O3'', ''-enable-16bit-types'']
   \<and> ''-enable-16bit-types''
       \<in> set [''shader.hlsl'', ''-T'', ''vs_6.0'', ''-E'', ''main'', ''-O3'', ''-enable-16bit-types'']"
proof -
  have i: "shaderModelIndex ''10_0'' = Some 57"
    by (simp add: shaderModelIndex_def string_at_def char_value_def)
  have a: "CompileDXC_args (sample_options IGNITE_SHADER_PLATFORM_TYPE_DXIL IGNITE_OPT_LEVEL_3 ''10_0'') =
       Some [''shader.hlsl'', ''-T'', ''vs_10_0'', ''-E'', ''main'', ''-O3'']"
    by (simp add: CompileDXC_args_def sample_options_def default_CompilerOptions_def i
          AnsiToWide_def word_le_nat_alt DXC_ARG_OPTIMIZATION_LEVEL3_def)
  have b: "CompileDXC_args flag_passing_options =
       Some [''shader.hlsl'', ''-T'', ''vs_6.0'', ''-E'', ''main'', ''-O3'', ''-enable-16bit-types'']"
    by (simp add: CompileDXC_args_def flag_passing_options_def sample_options_def
          default_CompilerOptions_def shaderModelIndex_samples AnsiToWide_def word_le_nat_alt
          DXC_ARG_OPTIMIZATION_LEVEL3_def TokenizeCompilerOptions_def)
  show ?thesis
    by (intro conjI) (simp_all add: i a b)
qed

end
